theory Spec2Isabelle
  imports Main
begin

section \<open>Shared data: JSON values, exceptions, the file system\<close>

text \<open>
  The stages exchange JSON documents. Remote poll responses and the output messages of
  the stages are modelled as JSON values; a Python dict is an association list read with
  \<open>map_of\<close> (Python's \<open>d.get(k)\<close>), its keys distinct as in a dict literal.
\<close>

datatype json =
    JNull
  | JBool bool
  | JInt int
  | JStr string
  | JList "json list"
  | JObj "(string \<times> json) list"

text \<open>Python truthiness of a decoded JSON value (\<open>if x:\<close>, \<open>not x\<close>).\<close>

fun truthy :: "json \<Rightarrow> bool" where
  "truthy JNull = False"
| "truthy (JBool b) = b"
| "truthy (JInt n) = (n \<noteq> 0)"
| "truthy (JStr s) = (s \<noteq> [])"
| "truthy (JList xs) = (xs \<noteq> [])"
| "truthy (JObj kvs) = (kvs \<noteq> [])"

text \<open>An exception, carrying the text that \<open>str(e)\<close> gives.\<close>

datatype exn = Exn string

fun exn_str :: "exn \<Rightarrow> string" where
  "exn_str (Exn s) = s"

text \<open>A value that may be \<open>None\<close>, rendered into a JSON document.\<close>

fun opt_str :: "string option \<Rightarrow> json" where
  "opt_str None = JNull"
| "opt_str (Some s) = JStr s"

section \<open>Strings and paths\<close>

text \<open>
  Strings are byte lists. \<open>strip\<close> removes the ASCII white space of Python's
  \<open>str.strip()\<close> and \<open>lower\<close> maps the ASCII capitals; white space and letters outside
  ASCII are not modelled.
\<close>

definition is_space :: "char \<Rightarrow> bool" where
  "is_space c = (c \<in> set [CHR 0x09, CHR 0x0A, CHR 0x0B, CHR 0x0C, CHR 0x0D,
                            CHR 0x1C, CHR 0x1D, CHR 0x1E, CHR 0x1F, CHR 0x20])"

definition strip :: "string \<Rightarrow> string" where
  "strip s = rev (dropWhile is_space (rev (dropWhile is_space s)))"

definition startswith :: "string \<Rightarrow> string \<Rightarrow> bool" where
  "startswith p s = (take (length p) s = p)"

definition lower_char :: "char \<Rightarrow> char" where
  "lower_char c =
     (let n = (of_char c :: nat) in if 65 \<le> n \<and> n \<le> 90 then char_of (n + 32) else c)"

definition lower :: "string \<Rightarrow> string" where
  "lower s = map lower_char s"

text \<open>\<open>sub in s\<close> for two strings.\<close>

fun contains :: "string \<Rightarrow> string \<Rightarrow> bool" where
  "contains sub [] = (sub = [])"
| "contains sub (c # cs) = (startswith sub (c # cs) \<or> contains sub cs)"

text \<open>
  \<open>line.split(":", 1)\<close> under the guard \<open>":" in line\<close>: the text before the first colon
  and the text after it.
\<close>

definition split_colon :: "string \<Rightarrow> (string \<times> string) option" where
  "split_colon line =
     (if CHR '':'' \<in> set line
      then Some (takeWhile (\<lambda>c. c \<noteq> CHR '':'') line, tl (dropWhile (\<lambda>c. c \<noteq> CHR '':'') line))
      else None)"

text \<open>\<open>str(n)\<close> of an integer: its decimal digits, with a minus sign when negative.\<close>

definition digit_char :: "nat \<Rightarrow> char" where
  "digit_char d = char_of (48 + d)"

function str_nat :: "nat \<Rightarrow> string" where
  "str_nat n = (if n < 10 then [digit_char n] else str_nat (n div 10) @ [digit_char (n mod 10)])"
  by pat_completeness auto
termination
  by (relation "measure (\<lambda>n. n)") auto

declare str_nat.simps [simp del]

definition str_int :: "int \<Rightarrow> string" where
  "str_int i = (if i < 0 then CHR ''-'' # str_nat (nat (- i)) else str_nat (nat i))"

text \<open>
  \<open>output_dir / name\<close>: an absolute \<open>name\<close> replaces the directory. pathlib's
  normalisation of the spelling (doubled or trailing slashes) is not modelled; paths are
  compared by spelling.
\<close>

definition path_join :: "string \<Rightarrow> string \<Rightarrow> string" where
  "path_join d n = (if startswith ''/'' n then n else d @ ''/'' @ n)"

section \<open>Work items and item results\<close>

text \<open>
  \<open>KeyframeData\<close> of the keyframe parser; \<open>to_dict\<close> serialises exactly these six fields,
  and the image stage reads them back with \<open>.get\<close>.
\<close>

record keyframe =
  kf_prompt :: string
  kf_negative_prompt :: "string option"
  kf_frame_number :: "int option"
  kf_timestamp :: "string option"
  kf_aspect_ratio :: "string option"
  kf_seed :: "int option"

text \<open>
  A frame dict as the video stage reads it: \<open>frame.get('frame_id')\<close>,
  \<open>frame.get('image_path')\<close>, \<open>frame.get('prompt', '')\<close>. \<open>None\<close> is an absent key (or
  a null).
\<close>

record frame =
  fr_frame_id :: "string option"
  fr_image_path :: "string option"
  fr_prompt :: "string option"

text \<open>
  A result dict of the video stage, read with \<open>.get\<close>: a key the dict does not have and
  a key bound to \<open>None\<close> both read as \<open>None\<close>. The skipped shape has the keys
  \<open>frame_id, status, reason, original_frame\<close>; the processed shape has
  \<open>frame_id, image_path, video_path, prompt, status, original_frame\<close>.
\<close>

record video_result =
  vr_frame_id :: "string option"
  vr_status :: string
  vr_reason :: "string option"
  vr_image_path :: "string option"
  vr_video_path :: "string option"
  vr_prompt :: "string option"
  vr_original_frame :: frame

text \<open>The music stage's output message, as far as the result logger reads it.\<close>

record music_message =
  mm_status :: "string option"
  mm_music_path :: "string option"
  mm_error :: "string option"

section \<open>Keyframe parser (keyframe\_parser\_agent.py)\<close>

text \<open>
  The dict \<open>current_frame\<close> of \<open>parse_keyframe_file\<close>: only these five keys are ever
  stored, so the dict is a record of optional values; it is empty when all are \<open>None\<close>.
\<close>

record current_frame =
  cf_prompt :: "string option"
  cf_negative_prompt :: "string option"
  cf_frame_number :: "int option"
  cf_aspect_ratio :: "string option"
  cf_seed :: "int option"

definition empty_frame :: current_frame where
  "empty_frame = \<lparr> cf_prompt = None, cf_negative_prompt = None, cf_frame_number = None,
                    cf_aspect_ratio = None, cf_seed = None \<rparr>"

text \<open>The \<open>KeyframeData(...)\<close> built from \<open>current_frame\<close> (no timestamp is passed).\<close>

definition keyframe_of :: "current_frame \<Rightarrow> keyframe" where
  "keyframe_of cf =
     \<lparr> kf_prompt = (case cf_prompt cf of None \<Rightarrow> [] | Some p \<Rightarrow> p),
       kf_negative_prompt = cf_negative_prompt cf,
       kf_frame_number = cf_frame_number cf,
       kf_timestamp = None,
       kf_aspect_ratio = Some (case cf_aspect_ratio cf of None \<Rightarrow> ''16:9'' | Some a \<Rightarrow> a),
       kf_seed = cf_seed cf \<rparr>"

text \<open>\<open>if current_frame and "prompt" in current_frame: keyframes.append(...)\<close>.\<close>

definition append_if_prompt :: "keyframe list \<Rightarrow> current_frame \<Rightarrow> keyframe list" where
  "append_if_prompt keyframes cf =
     (if cf_prompt cf \<noteq> None then keyframes @ [keyframe_of cf] else keyframes)"

text \<open>
  The \<open>if key == ...\<close> chain. \<open>to_int\<close> is Python's \<open>int(value)\<close>, \<open>None\<close> when it raises
  \<open>ValueError\<close> (which the source swallows); it is a parameter of the model.
\<close>

definition set_field ::
  "(string \<Rightarrow> int option) \<Rightarrow> current_frame \<Rightarrow> string \<Rightarrow> string \<Rightarrow> current_frame" where
  "set_field to_int cf key val =
     (if key = ''frame'' \<or> key = ''frame_number'' then
        (case to_int val of None \<Rightarrow> cf | Some n \<Rightarrow> cf\<lparr>cf_frame_number := Some n\<rparr>)
      else if key = ''prompt'' then cf\<lparr>cf_prompt := Some val\<rparr>
      else if key = ''negative_prompt'' then cf\<lparr>cf_negative_prompt := Some val\<rparr>
      else if key = ''aspect_ratio'' then cf\<lparr>cf_aspect_ratio := Some val\<rparr>
      else if key = ''seed'' then
        (case to_int val of None \<Rightarrow> cf | Some n \<Rightarrow> cf\<lparr>cf_seed := Some n\<rparr>)
      else cf)"

text \<open>The key-value part of the loop body, for a stripped line that is no delimiter.\<close>

definition apply_line ::
  "(string \<Rightarrow> int option) \<Rightarrow> current_frame \<Rightarrow> string \<Rightarrow> current_frame" where
  "apply_line to_int cf line =
     (case split_colon line of
        None \<Rightarrow> cf
      | Some (key, val) \<Rightarrow> set_field to_int cf (lower (strip key)) (strip val))"

text \<open>The \<open>for line in lines\<close> loop and the flush of the last keyframe after it.\<close>

fun parse_loop ::
  "(string \<Rightarrow> int option) \<Rightarrow> string list \<Rightarrow> keyframe list \<Rightarrow> current_frame \<Rightarrow> keyframe list"
where
  "parse_loop to_int [] keyframes cf = append_if_prompt keyframes cf"
| "parse_loop to_int (raw # rest) keyframes cf =
     (let line = strip raw in
      if line = [] \<or> startswith ''#'' line then parse_loop to_int rest keyframes cf
      else if startswith ''---'' line then
        parse_loop to_int rest (append_if_prompt keyframes cf) empty_frame
      else parse_loop to_int rest keyframes (apply_line to_int cf line))"

text \<open>
  \<open>parse_keyframe_file\<close>: \<open>read_lines\<close> is \<open>open(file_path).readlines()\<close>, an exception
  when the file cannot be opened (it is re-raised).
\<close>

definition parse_keyframe_file ::
  "(string \<Rightarrow> exn + string list) \<Rightarrow> (string \<Rightarrow> int option) \<Rightarrow> string \<Rightarrow> exn + keyframe list"
where
  "parse_keyframe_file read_lines to_int file_path =
     (case read_lines file_path of
        Inl e \<Rightarrow> Inl e
      | Inr lines \<Rightarrow> Inr (parse_loop to_int lines [] empty_frame))"

fun opt_int :: "int option \<Rightarrow> json" where
  "opt_int None = JNull"
| "opt_int (Some n) = JInt n"

text \<open>\<open>KeyframeData.to_dict\<close>.\<close>

definition to_dict :: "keyframe \<Rightarrow> json" where
  "to_dict kf =
     JObj [(''prompt'', JStr (kf_prompt kf)),
           (''negative_prompt'', opt_str (kf_negative_prompt kf)),
           (''frame_number'', opt_int (kf_frame_number kf)),
           (''timestamp'', opt_str (kf_timestamp kf)),
           (''aspect_ratio'', opt_str (kf_aspect_ratio kf)),
           (''seed'', opt_int (kf_seed kf))]"

text \<open>The parser's input message, read with \<open>message.get\<close>.\<close>

record parser_message =
  pm_keyframes_file :: "string option"
  pm_default_aspect_ratio :: "string option"
  pm_frame_id_prefix :: "string option"

definition get_default :: "'a option \<Rightarrow> 'a \<Rightarrow> 'a" where
  "get_default v d = (case v of None \<Rightarrow> d | Some x \<Rightarrow> x)"

text \<open>The text \<^verbatim>\<open>Missing required parameter 'keyframes_file'\<close>.\<close>

definition missing_keyframes_file :: string where
  "missing_keyframes_file = ''Missing required parameter 'keyframes_file'' @ [CHR 0x27]"

text \<open>
  \<open>process_input_message\<close> of the keyframe parser. The result is the output message;
  \<open>str(keyframe_path)\<close> is taken to be the spelling of the path as given.
\<close>

definition parser_process_input_message ::
  "(string \<Rightarrow> exn + string list) \<Rightarrow> (string \<Rightarrow> int option) \<Rightarrow> parser_message \<Rightarrow> json" where
  "parser_process_input_message read_lines to_int message =
     (let keyframes_file = pm_keyframes_file message;
          default_aspect_ratio = get_default (pm_default_aspect_ratio message) ''16:9'';
          frame_id_prefix = get_default (pm_frame_id_prefix message) ''frame_''
      in if keyframes_file = None \<or> keyframes_file = Some [] then
           JObj [(''error'', JStr missing_keyframes_file)]
         else
           (case parse_keyframe_file read_lines to_int (the keyframes_file) of
              Inr keyframes_data \<Rightarrow>
                (let serialized_keyframes = map to_dict keyframes_data in
                 JObj [(''status'', JStr ''success''),
                       (''keyframes'', JList serialized_keyframes),
                       (''count'', JInt (int (length serialized_keyframes))),
                       (''metadata'',
                          JObj [(''source_file'', JStr (the keyframes_file)),
                                (''default_aspect_ratio'', JStr default_aspect_ratio),
                                (''frame_id_prefix'', JStr frame_id_prefix)])])
            | Inl e \<Rightarrow>
                JObj [(''status'', JStr ''error''),
                      (''error'', JStr (exn_str e)),
                      (''metadata'', JObj [(''source_file'', JStr (the keyframes_file))])]))"

text \<open>
  \<open>main\<close> of the keyframe parser: \<open>loaded\<close> is the outcome of reading standard input and
  \<open>json.loads\<close>; the result is the document written to standard output.
\<close>

definition parser_main ::
  "(string \<Rightarrow> exn + string list) \<Rightarrow> (string \<Rightarrow> int option) \<Rightarrow> exn + parser_message \<Rightarrow> json" where
  "parser_main read_lines to_int loaded =
     (case loaded of
        Inl e \<Rightarrow> JObj [(''status'', JStr ''error''), (''error'', JStr (exn_str e))]
      | Inr message \<Rightarrow> parser_process_input_message read_lines to_int message)"

text \<open>The fields of an output message.\<close>

fun field :: "json \<Rightarrow> string \<Rightarrow> json option" where
  "field (JObj kvs) k = map_of kvs k"
| "field _ k = None"

subsection \<open>The keyframe file, block by block\<close>

text \<open>
  A second description of the parser's result, in terms of the blocks of the file: the
  lines that count (stripped, not blank, no comment) are cut at the delimiter lines
  (those that start with \<open>---\<close>); a block has a prompt when one of its lines has the key
  \<open>prompt\<close>; each block with a prompt gives one keyframe.
\<close>

definition content_lines :: "string list \<Rightarrow> string list" where
  "content_lines lines = filter (\<lambda>l. l \<noteq> [] \<and> \<not> startswith ''#'' l) (map strip lines)"

fun split_blocks :: "string list \<Rightarrow> string list list" where
  "split_blocks [] = [[]]"
| "split_blocks (l # ls) =
     (if startswith ''---'' l then [] # split_blocks ls
      else (case split_blocks ls of [] \<Rightarrow> [[l]] | b # bs \<Rightarrow> (l # b) # bs))"

definition is_prompt_line :: "string \<Rightarrow> bool" where
  "is_prompt_line l =
     (case split_colon l of None \<Rightarrow> False | Some (key, val) \<Rightarrow> lower (strip key) = ''prompt'')"

definition has_prompt :: "string list \<Rightarrow> bool" where
  "has_prompt block = list_ex is_prompt_line block"

definition block_frame :: "(string \<Rightarrow> int option) \<Rightarrow> string list \<Rightarrow> current_frame" where
  "block_frame to_int block = foldl (apply_line to_int) empty_frame block"

definition blocks_of :: "string list \<Rightarrow> string list list" where
  "blocks_of lines = split_blocks (content_lines lines)"

definition keyframes_of_blocks :: "(string \<Rightarrow> int option) \<Rightarrow> string list \<Rightarrow> keyframe list" where
  "keyframes_of_blocks to_int lines =
     map (\<lambda>b. keyframe_of (block_frame to_int b)) (filter has_prompt (blocks_of lines))"

section \<open>The remote provider and the disk\<close>

text \<open>
  What writing a downloaded body to a path does: it succeeds, \<open>open\<close> raises (nothing is
  created), or the write raises after the first \<open>n\<close> bytes (the file stays, truncated).
\<close>

datatype disk_outcome = WriteOk | OpenFails exn | WriteFails nat exn

text \<open>\<open>ImageGenerationRequest\<close> and \<open>ImageToVideoRequest\<close>, as the stages fill them.\<close>

record image_request =
  iq_model_name :: string
  iq_prompt :: string
  iq_negative_prompt :: "string option"
  iq_n :: nat
  iq_aspect_ratio :: "string option"
  iq_seed :: "int option"

text \<open>
  \<open>vq_image\<close> holds the bytes of the image file; the request carries their base64 text,
  which determines them.
\<close>

record video_request =
  vq_model_name :: string
  vq_image :: string
  vq_prompt :: string
  vq_mode :: string
  vq_duration :: string

text \<open>
  The collaborators of a stage, as functions the model is given:
  \<^item> \<open>init_error\<close>: the exception of \<open>load_kling_config\<close> or of the generator's
    constructor, if one is raised;
  \<^item> \<open>submit_image\<close>, \<open>submit_video\<close>: building the request and creating the task; the
    task id, or the exception raised;
  \<^item> \<open>wait_image\<close>: \<open>wait_for_image_generation_completion\<close>; the URLs of
    \<open>task_result.images\<close> (\<open>None\<close> when \<open>task_result\<close> is empty), or the exception;
  \<^item> \<open>get_task_status\<close>: the response of the \<open>k\<close>-th status request for a task, or the
    exception it raises;
  \<^item> \<open>http_get\<close>: \<open>requests.get(url).content\<close>, or the exception;
  \<^item> \<open>disk\<close>: what writing to a path does;
  \<^item> \<open>dify\<close>: the prompt enhancer, when the module is available.
\<close>

record provider =
  init_error :: "exn option"
  submit_image :: "image_request \<Rightarrow> exn + string"
  wait_image :: "string \<Rightarrow> exn + string list option"
  submit_video :: "video_request \<Rightarrow> exn + string"
  get_task_status :: "string \<Rightarrow> nat \<Rightarrow> exn + (string \<times> json) list"
  http_get :: "string \<Rightarrow> exn + string"
  disk :: "string \<Rightarrow> disk_outcome"
  dify :: "(string \<Rightarrow> exn + string) option"

text \<open>The files of the image and video directories: path to bytes.\<close>

type_synonym blobs = "string \<rightharpoonup> string"

text \<open>
  The download block of both stages:
  \<^verbatim>\<open>response = requests.get(url); with open(output_path, "wb") as f: f.write(response.content)\<close>.
  Neither the status code nor the length of the body is looked at.
\<close>

definition download :: "provider \<Rightarrow> blobs \<Rightarrow> string \<Rightarrow> string \<Rightarrow> blobs \<times> (exn + unit)" where
  "download prov files url output_path =
     (case http_get prov url of
        Inl e \<Rightarrow> (files, Inl e)
      | Inr body \<Rightarrow>
          (case disk prov output_path of
             WriteOk \<Rightarrow> (files(output_path \<mapsto> body), Inr ())
           | OpenFails e \<Rightarrow> (files, Inl e)
           | WriteFails n e \<Rightarrow> (files(output_path \<mapsto> take n body), Inl e)))"

section \<open>Image generator (image\_generator\_agent.py)\<close>

text \<open>The result dict of \<open>process_keyframes\<close>.\<close>

record image_result =
  ir_frame_id :: string
  ir_frame_number :: int
  ir_prompt :: string
  ir_image_path :: "string option"
  ir_status :: string
  ir_original_keyframe :: keyframe

text \<open>
  \<open>ImageGenerator.generate\<close>. Every exception inside is caught and turned into \<open>None\<close>.
\<close>

definition generate ::
  "provider \<Rightarrow> string \<Rightarrow> blobs \<Rightarrow> string \<Rightarrow> string \<Rightarrow> string option \<Rightarrow> string option \<Rightarrow>
     int option \<Rightarrow> string option \<Rightarrow> blobs \<times> string option" where
  "generate prov output_dir files prompt model_name negative_prompt aspect_ratio seed frame_id =
     (let request = \<lparr> iq_model_name = model_name, iq_prompt = prompt,
                       iq_negative_prompt = negative_prompt, iq_n = 1,
                       iq_aspect_ratio = aspect_ratio, iq_seed = seed \<rparr>
      in case submit_image prov request of
           Inl e \<Rightarrow> (files, None)
         | Inr task_id \<Rightarrow>
             (case wait_image prov task_id of
                Inl e \<Rightarrow> (files, None)
              | Inr None \<Rightarrow> (files, None)
              | Inr (Some []) \<Rightarrow> (files, None)
              | Inr (Some (image_url # _)) \<Rightarrow>
                  (let filename =
                         (if frame_id \<noteq> None \<and> frame_id \<noteq> Some []
                          then the frame_id @ ''.png''
                          else ''image_'' @ task_id @ ''.png'');
                       output_path = path_join output_dir filename
                   in case download prov files image_url output_path of
                        (files', Inl e) \<Rightarrow> (files', None)
                      | (files', Inr _) \<Rightarrow> (files', Some output_path))))"

text \<open>\<open>keyframe.get('frame_number') or (idx + 1)\<close>.\<close>

definition frame_number_of :: "nat \<Rightarrow> keyframe \<Rightarrow> int" where
  "frame_number_of idx kf =
     (case kf_frame_number kf of
        None \<Rightarrow> int idx + 1
      | Some n \<Rightarrow> (if n \<noteq> 0 then n else int idx + 1))"

text \<open>
  The loop of \<open>process_keyframes\<close> over \<open>enumerate(keyframes_data)\<close>. The keyframe dicts
  carry all six keys of \<open>to_dict\<close>, so a \<open>None\<close> is passed on as it is.
\<close>

fun keyframes_loop ::
  "provider \<Rightarrow> string \<Rightarrow> string \<Rightarrow> string \<Rightarrow> nat \<Rightarrow> keyframe list \<Rightarrow> blobs \<Rightarrow>
     image_result list \<Rightarrow> blobs \<times> image_result list" where
  "keyframes_loop prov output_dir model_name frame_id_prefix idx [] files results =
     (files, results)"
| "keyframes_loop prov output_dir model_name frame_id_prefix idx (keyframe # rest) files results =
     (let frame_number = frame_number_of idx keyframe;
          frame_id = frame_id_prefix @ str_int frame_number;
          prompt = kf_prompt keyframe;
          (files', image_path) =
             generate prov output_dir files prompt model_name (kf_negative_prompt keyframe)
               (kf_aspect_ratio keyframe) (kf_seed keyframe) (Some frame_id);
          result = \<lparr> ir_frame_id = frame_id,
                      ir_frame_number = frame_number,
                      ir_prompt = prompt,
                      ir_image_path = image_path,
                      ir_status = (if image_path \<noteq> None then ''success'' else ''failed''),
                      ir_original_keyframe = keyframe \<rparr>
      in keyframes_loop prov output_dir model_name frame_id_prefix (Suc idx) rest files'
           (results @ [result]))"

text \<open>
  \<open>process_keyframes\<close>: the configuration and the generator are set up first; an exception
  there leaves the function before any keyframe is processed.
\<close>

definition process_keyframes ::
  "provider \<Rightarrow> blobs \<Rightarrow> keyframe list \<Rightarrow> string \<Rightarrow> string \<Rightarrow> string \<Rightarrow>
     blobs \<times> (exn + image_result list)" where
  "process_keyframes prov files keyframes_data output_dir model_name frame_id_prefix =
     (case init_error prov of
        Some e \<Rightarrow> (files, Inl e)
      | None \<Rightarrow>
          (let (files', results) =
                 keyframes_loop prov output_dir model_name frame_id_prefix 0 keyframes_data files []
           in (files', Inr results)))"

section \<open>Video generator (video\_generator\_agent.py)\<close>

text \<open>
  What the loop body makes of one status response: \<open>data["task_status"]\<close> is
  \<open>"succeed"\<close> (the loop breaks with \<open>data\<close>), \<open>"failed"\<close> (the function returns
  \<open>None\<close>), or anything else, including a response without \<open>data\<close> or a \<open>data\<close> that is no
  dict or has no \<open>task_status\<close> (the loop sleeps and goes on).
\<close>

datatype poll_step = StepSucceed "(string \<times> json) list" | StepFailed | StepPending

definition classify :: "(string \<times> json) list \<Rightarrow> poll_step" where
  "classify response =
     (case map_of response ''data'' of
        Some (JObj data) \<Rightarrow>
          (case map_of data ''task_status'' of
             None \<Rightarrow> StepPending
           | Some status \<Rightarrow>
               (if status = JStr ''succeed'' then StepSucceed data
                else if status = JStr ''failed'' then StepFailed
                else StepPending))
      | _ \<Rightarrow> StepPending)"

text \<open>How the polling ends.\<close>

datatype poll_outcome =
    Completed "(string \<times> json) list"
  | JobFailed
  | TimedOut
  | Raised exn

definition check_interval :: int where
  "check_interval = 5"

text \<open>
  The \<open>while elapsed < max_wait_time\<close> loop with its \<open>else\<close> branch. \<open>status_of k\<close> is the
  outcome of the \<open>k\<close>-th call of \<open>get_task_status\<close>, which logs an exception and raises it
  again. The result is how the loop ends, the number of status requests made, and
  \<open>elapsed\<close> at that moment. \<open>max_wait_time\<close>, 300 in the source, is a parameter.
\<close>

function poll_loop ::
  "int \<Rightarrow> (nat \<Rightarrow> exn + (string \<times> json) list) \<Rightarrow> int \<Rightarrow> nat \<Rightarrow> poll_outcome \<times> nat \<times> int" where
  "poll_loop max_wait_time status_of elapsed k =
     (if elapsed < max_wait_time then
        (case status_of k of
           Inl e \<Rightarrow> (Raised e, Suc k, elapsed)
         | Inr response \<Rightarrow>
             (case classify response of
                StepSucceed data \<Rightarrow> (Completed data, Suc k, elapsed)
              | StepFailed \<Rightarrow> (JobFailed, Suc k, elapsed)
              | StepPending \<Rightarrow>
                  poll_loop max_wait_time status_of (elapsed + check_interval) (Suc k)))
      else (TimedOut, k, elapsed))"
  by pat_completeness auto
termination
  by (relation "measure (\<lambda>(m, s, e, k). nat (m - e))") (auto simp: check_interval_def)

declare poll_loop.simps [simp del]

text \<open>
  A status request that returns a response the loop does not take as terminal, and a
  sequence of status requests none of which raises or is terminal.
\<close>

definition pending_response :: "exn + (string \<times> json) list \<Rightarrow> bool" where
  "pending_response r = (case r of Inl e \<Rightarrow> False | Inr response \<Rightarrow> classify response = StepPending)"

definition never_terminal :: "(nat \<Rightarrow> exn + (string \<times> json) list) \<Rightarrow> bool" where
  "never_terminal status_of = (\<forall>k. pending_response (status_of k))"

text \<open>
  The inspection of the completed task: the URL \<open>videos[0]["url"]\<close> when the nested
  checks pass, \<open>Inr None\<close> when one of them is false (``No video generated''), and an
  exception where Python raises one (\<open>in\<close>, \<open>len\<close> or an index applied to a value of the
  wrong type).
\<close>

definition video_url_of :: "(string \<times> json) list \<Rightarrow> exn + json option" where
  "video_url_of completed_task =
     (if completed_task = [] then Inr None
      else case map_of completed_task ''task_result'' of
        None \<Rightarrow> Inr None
      | Some task_result \<Rightarrow>
          (if \<not> truthy task_result then Inr None
           else case task_result of
             JObj tr \<Rightarrow>
               (case map_of tr ''videos'' of
                  None \<Rightarrow> Inr None
                | Some videos \<Rightarrow>
                    (if \<not> truthy videos then Inr None
                     else case videos of
                       JList (JObj v # _) \<Rightarrow>
                         (case map_of v ''url'' of None \<Rightarrow> Inr None | Some u \<Rightarrow> Inr (Some u))
                     | JList _ \<Rightarrow> Inr None
                     | JStr _ \<Rightarrow> Inr None
                     | JObj _ \<Rightarrow> Inl (Exn ''KeyError'')
                     | _ \<Rightarrow> Inl (Exn ''TypeError'')))
           | JList xs \<Rightarrow> (if JStr ''videos'' \<in> set xs then Inl (Exn ''TypeError'') else Inr None)
           | JStr s \<Rightarrow> (if contains ''videos'' s then Inl (Exn ''TypeError'') else Inr None)
           | _ \<Rightarrow> Inl (Exn ''TypeError'')))"

text \<open>\<open>f"{frame_id}"\<close> for a frame id that may be \<open>None\<close>.\<close>

definition str_opt :: "string option \<Rightarrow> string" where
  "str_opt x = (case x of None \<Rightarrow> ''None'' | Some s \<Rightarrow> s)"

text \<open>
  \<open>VideoGenerator.generate_from_image\<close>, with \<open>max_wait_time\<close> as a parameter. The outer
  \<open>except Exception\<close> turns every exception into \<open>None\<close>. A URL that is no string makes
  \<open>requests.get\<close> raise.
\<close>

definition generate_from_image_within ::
  "int \<Rightarrow> provider \<Rightarrow> string \<Rightarrow> blobs \<Rightarrow> string \<Rightarrow> string \<Rightarrow> string option \<Rightarrow> string \<Rightarrow>
     string \<Rightarrow> string \<Rightarrow> blobs \<times> string option" where
  "generate_from_image_within max_wait_time prov output_dir files image_path prompt frame_id
       mode duration model_name =
     (case files image_path of
        None \<Rightarrow> (files, None)
      | Some image_bytes \<Rightarrow>
          (let request = \<lparr> vq_model_name = model_name, vq_image = image_bytes, vq_prompt = prompt,
                           vq_mode = mode, vq_duration = duration \<rparr>
           in case submit_video prov request of
                Inl e \<Rightarrow> (files, None)
              | Inr task_id \<Rightarrow>
                  (case fst (poll_loop max_wait_time (get_task_status prov task_id) 0 0) of
                     Raised e \<Rightarrow> (files, None)
                   | JobFailed \<Rightarrow> (files, None)
                   | TimedOut \<Rightarrow> (files, None)
                   | Completed completed_task \<Rightarrow>
                       (case video_url_of completed_task of
                          Inr (Some (JStr video_url)) \<Rightarrow>
                            (let output_path = path_join output_dir (str_opt frame_id @ ''.mp4'')
                             in case download prov files video_url output_path of
                                  (files', Inl e) \<Rightarrow> (files', None)
                                | (files', Inr _) \<Rightarrow> (files', Some output_path))
                        | _ \<Rightarrow> (files, None)))))"

definition generate_from_image ::
  "provider \<Rightarrow> string \<Rightarrow> blobs \<Rightarrow> string \<Rightarrow> string \<Rightarrow> string option \<Rightarrow> string \<Rightarrow>
     string \<Rightarrow> string \<Rightarrow> blobs \<times> string option" where
  "generate_from_image = generate_from_image_within 300"

text \<open>\<open>enhance_prompt_with_dify\<close>: the prompt itself when the enhancer is absent or raises.\<close>

definition enhance_prompt_with_dify :: "provider \<Rightarrow> string \<Rightarrow> string" where
  "enhance_prompt_with_dify prov original_prompt =
     (case dify prov of
        None \<Rightarrow> original_prompt
      | Some enhance \<Rightarrow>
          (case enhance original_prompt of Inl e \<Rightarrow> original_prompt | Inr p \<Rightarrow> p))"

text \<open>The loop of \<open>process_frame_images\<close>.\<close>

fun frames_loop ::
  "provider \<Rightarrow> string \<Rightarrow> string \<Rightarrow> string \<Rightarrow> string \<Rightarrow> bool \<Rightarrow> frame list \<Rightarrow> blobs \<Rightarrow>
     video_result list \<Rightarrow> blobs \<times> video_result list" where
  "frames_loop prov output_dir model_name mode duration use_dify [] files results =
     (files, results)"
| "frames_loop prov output_dir model_name mode duration use_dify (frame # rest) files results =
     (let frame_id = fr_frame_id frame;
          image_path = fr_image_path frame;
          prompt = get_default (fr_prompt frame) []
      in if image_path = None \<or> image_path = Some [] then
           frames_loop prov output_dir model_name mode duration use_dify rest files
             (results @ [\<lparr> vr_frame_id = frame_id, vr_status = ''skipped'',
                            vr_reason = Some ''No image available'', vr_image_path = None,
                            vr_video_path = None, vr_prompt = None,
                            vr_original_frame = frame \<rparr>])
         else
           (let prompt' = (if use_dify then enhance_prompt_with_dify prov prompt else prompt);
                (files', video_path) =
                   generate_from_image prov output_dir files (the image_path) prompt' frame_id
                     mode duration model_name;
                result = \<lparr> vr_frame_id = frame_id, vr_status =
                              (if video_path \<noteq> None then ''success'' else ''failed''),
                            vr_reason = None, vr_image_path = image_path,
                            vr_video_path = video_path, vr_prompt = Some prompt',
                            vr_original_frame = frame \<rparr>
            in frames_loop prov output_dir model_name mode duration use_dify rest files'
                 (results @ [result])))"

text \<open>
  \<open>process_frame_images\<close>: as in the image stage, an exception of the set-up leaves the
  function before the loop.
\<close>

definition process_frame_images ::
  "provider \<Rightarrow> blobs \<Rightarrow> frame list \<Rightarrow> string \<Rightarrow> string \<Rightarrow> string \<Rightarrow> string \<Rightarrow> bool \<Rightarrow>
     blobs \<times> (exn + video_result list)" where
  "process_frame_images prov files frames_data output_dir model_name mode duration use_dify =
     (case init_error prov of
        Some e \<Rightarrow> (files, Inl e)
      | None \<Rightarrow>
          (let (files', results) =
                 frames_loop prov output_dir model_name mode duration use_dify frames_data files []
           in (files', Inr results)))"

section \<open>The shape of an item result\<close>

text \<open>
  The three shapes of a result dict of the video stage, by its status: the output path is
  the key \<open>video_path\<close>, the error reason the key \<open>reason\<close>. And the two shapes of a
  result dict of the image stage, which has no key for an error reason.
\<close>

definition video_result_shape :: "video_result \<Rightarrow> bool" where
  "video_result_shape r =
     (vr_status r = ''success'' \<and> vr_video_path r \<noteq> None \<and> vr_reason r = None
      \<or> vr_status r = ''failed'' \<and> vr_video_path r = None \<and> vr_reason r = None
      \<or> vr_status r = ''skipped'' \<and> vr_video_path r = None
          \<and> vr_reason r = Some ''No image available'')"

definition image_result_shape :: "image_result \<Rightarrow> bool" where
  "image_result_shape r =
     (ir_status r = ''success'' \<and> ir_image_path r \<noteq> None
      \<or> ir_status r = ''failed'' \<and> ir_image_path r = None)"

text \<open>The frame id that \<open>process_keyframes\<close> gives the keyframe at index \<open>idx\<close>.\<close>

definition frame_id_of :: "string \<Rightarrow> nat \<times> keyframe \<Rightarrow> string" where
  "frame_id_of frame_id_prefix ik = frame_id_prefix @ str_int (frame_number_of (fst ik) (snd ik))"

text \<open>The numbers \<open>keyframe.get('frame_number') or (idx + 1)\<close> of a batch, in order.\<close>

definition frame_numbers :: "keyframe list \<Rightarrow> int list" where
  "frame_numbers kfs = map (\<lambda>ik. frame_number_of (fst ik) (snd ik)) (enumerate 0 kfs)"

section \<open>Result logger (result\_logger\_agent.py)\<close>

record summary =
  video_frames :: nat
  successful_videos :: nat
  failed_videos :: nat
  music_generated :: bool

record log_entry =
  le_run_id :: string
  le_timestamp :: string
  le_video_results :: "video_result list"
  le_music_result :: "music_message option"
  le_summary :: summary

text \<open>
  What a file of the log directory holds: the JSON dump of a log entry, or the markdown
  text that \<open>_generate_markdown_summary\<close> renders from a log entry. The rendering itself
  (string formatting of each field) is not modelled: the summary file is identified by the
  entry it was rendered from.
\<close>

datatype file_content =
    JsonDump log_entry
  | MarkdownOf log_entry

type_synonym fs = "string \<rightharpoonup> file_content"

text \<open>
  The two readings of the clock in \<open>log_results\<close>: \<open>strftime("%Y%m%d_%H%M%S")\<close> and
  \<open>isoformat()\<close>.
\<close>

record clock =
  stamp :: string
  iso :: string

text \<open>\<open>sum(1 for v in video_results if v.get("status") == s)\<close>.\<close>

definition count_status :: "string \<Rightarrow> video_result list \<Rightarrow> nat" where
  "count_status s vs = length (filter (\<lambda>v. vr_status v = s) vs)"

definition make_summary :: "video_result list \<Rightarrow> music_message option \<Rightarrow> summary" where
  "make_summary video_results music_result =
     \<lparr> video_frames = length video_results,
       successful_videos = count_status ''success'' video_results,
       failed_videos = count_status ''failed'' video_results,
       music_generated =
         (case music_result of None \<Rightarrow> False | Some m \<Rightarrow> mm_status m = Some ''success'') \<rparr>"

text \<open>\<open>if not run_id: run_id = f"run_{timestamp}"\<close>.\<close>

definition effective_run_id :: "clock \<Rightarrow> string option \<Rightarrow> string" where
  "effective_run_id clk run_id =
     (case run_id of
        None \<Rightarrow> ''run_'' @ stamp clk
      | Some r \<Rightarrow> (if r = [] then ''run_'' @ stamp clk else r))"

definition make_log_entry ::
  "clock \<Rightarrow> video_result list \<Rightarrow> music_message option \<Rightarrow> string option \<Rightarrow> log_entry" where
  "make_log_entry clk video_results music_result run_id =
     \<lparr> le_run_id = effective_run_id clk run_id,
       le_timestamp = iso clk,
       le_video_results = video_results,
       le_music_result = music_result,
       le_summary = make_summary video_results music_result \<rparr>"

text \<open>
  \<open>open(path, 'w')\<close> followed by the write: the file is created or truncated and then
  holds the new content. \<open>writable\<close> says whether \<open>open\<close> succeeds for a path; when it
  does not, \<open>open\<close> raises and the file system is as before.
\<close>

definition write_file ::
  "(string \<Rightarrow> bool) \<Rightarrow> fs \<Rightarrow> string \<Rightarrow> file_content \<Rightarrow> fs \<times> (exn + unit)" where
  "write_file writable files path content =
     (if writable path then (files(path \<mapsto> content), Inr ())
      else (files, Inl (Exn (''cannot open '' @ path))))"

text \<open>
  \<open>ResultLogger.log_results\<close>. Returns the file system after the call and either the
  exception that escaped or the path of the log file.
\<close>

definition log_results ::
  "(string \<Rightarrow> bool) \<Rightarrow> string \<Rightarrow> clock \<Rightarrow> fs \<Rightarrow> video_result list \<Rightarrow>
     music_message option \<Rightarrow> string option \<Rightarrow> fs \<times> (exn + string)" where
  "log_results writable output_dir clk files video_results music_result run_id =
     (let entry = make_log_entry clk video_results music_result run_id;
          log_file = path_join output_dir (le_run_id entry @ ''.json'');
          summary_file = path_join output_dir (le_run_id entry @ ''_summary.md'')
      in case write_file writable files log_file (JsonDump entry) of
           (files1, Inl e) \<Rightarrow> (files1, Inl e)
         | (files1, Inr _) \<Rightarrow>
             (case write_file writable files1 summary_file (MarkdownOf entry) of
                (files2, Inl e) \<Rightarrow> (files2, Inl e)
              | (files2, Inr _) \<Rightarrow> (files2, Inr log_file)))"

text \<open>
  \<open>process_input_messages\<close>: the run id is derived from the clock, to the second. The
  result is the file system after the call and the output message.
\<close>

definition process_input_messages ::
  "(string \<Rightarrow> bool) \<Rightarrow> string \<Rightarrow> clock \<Rightarrow> fs \<Rightarrow> video_result list \<Rightarrow> music_message \<Rightarrow>
     fs \<times> json" where
  "process_input_messages writable output_dir clk files video_results music_message =
     (let run_id = ''run_'' @ stamp clk in
      case log_results writable output_dir clk files video_results (Some music_message)
             (Some run_id) of
        (files', Inr log_file) \<Rightarrow>
          (files',
           JObj [(''status'', JStr ''success''),
                 (''run_id'', JStr run_id),
                 (''summary'',
                    JObj [(''total_frames'', JInt (int (length video_results))),
                          (''successful_videos'',
                             JInt (int (count_status ''success'' video_results))),
                          (''failed_videos'', JInt (int (count_status ''failed'' video_results))),
                          (''music_generated'', JBool (mm_status music_message = Some ''success'')),
                          (''log_file'', JStr log_file)]),
                 (''video_paths'',
                    JList (map (\<lambda>v. opt_str (vr_video_path v))
                             (filter (\<lambda>v. vr_status v = ''success'') video_results))),
                 (''music_path'', opt_str (mm_music_path music_message))])
      | (files', Inl e) \<Rightarrow>
          (files',
           JObj [(''status'', JStr ''error''),
                 (''error'', JStr (exn_str e)),
                 (''run_id'', JStr run_id)]))"

section \<open>Concrete inputs\<close>

text \<open>
  A provider whose every call succeeds at once: the first status response reports
  \<open>succeed\<close> with one video URL, and every download returns the four bytes \<open>DATA\<close>.
\<close>

definition succeed_response :: "(string \<times> json) list" where
  "succeed_response =
     [(''data'',
       JObj [(''task_status'', JStr ''succeed''),
             (''task_result'',
                JObj [(''videos'', JList [JObj [(''url'', JStr ''http://cdn/v.mp4'')]])])])]"

definition processing_response :: "(string \<times> json) list" where
  "processing_response = [(''data'', JObj [(''task_status'', JStr ''processing'')])]"

definition good_provider :: provider where
  "good_provider =
     \<lparr> init_error = None,
       submit_image = (\<lambda>r. Inr ''img-task''),
       wait_image = (\<lambda>t. Inr (Some [''http://cdn/i.png''])),
       submit_video = (\<lambda>r. Inr ''vid-task''),
       get_task_status = (\<lambda>t k. Inr succeed_response),
       http_get = (\<lambda>u. Inr ''DATA''),
       disk = (\<lambda>p. WriteOk),
       dify = None \<rparr>"


text \<open>The same provider, but no status response is ever terminal.\<close>

definition slow_provider :: provider where
  "slow_provider = good_provider\<lparr> get_task_status := (\<lambda>t k. Inr processing_response) \<rparr>"

text \<open>The same provider, but every download has an empty body.\<close>

definition empty_body_provider :: provider where
  "empty_body_provider = good_provider\<lparr> http_get := (\<lambda>u. Inr []) \<rparr>"

text \<open>A directory that holds one image, and frames with and without an image.\<close>

definition one_image :: blobs where
  "one_image = [''img/frame_1.png'' \<mapsto> ''PNG'']"

definition frame_with_image :: frame where
  "frame_with_image =
     \<lparr> fr_frame_id = Some ''frame_1'', fr_image_path = Some ''img/frame_1.png'',
       fr_prompt = Some ''a red fox'' \<rparr>"

definition frame_without_image :: frame where
  "frame_without_image =
     \<lparr> fr_frame_id = Some ''frame_2'', fr_image_path = None, fr_prompt = Some ''a lake'' \<rparr>"

definition frame_missing_file :: frame where
  "frame_missing_file =
     \<lparr> fr_frame_id = Some ''frame_3'', fr_image_path = Some ''img/frame_3.png'',
       fr_prompt = Some ''a hill'' \<rparr>"

definition plain_keyframe :: "string \<Rightarrow> int option \<Rightarrow> keyframe" where
  "plain_keyframe p n =
     \<lparr> kf_prompt = p, kf_negative_prompt = None, kf_frame_number = n, kf_timestamp = None,
       kf_aspect_ratio = Some ''16:9'', kf_seed = None \<rparr>"

definition noon :: clock where
  "noon = \<lparr> stamp = ''20240101_120000'', iso = ''2024-01-01T12:00:00'' \<rparr>"

text \<open>
  A keyframe file of three blocks; the second has a seed but no prompt.
\<close>

definition three_blocks :: "string list" where
  "three_blocks =
     [''# keyframes'', ''prompt: a red fox'', ''---'', ''seed: 7'', ''---'',
      ''Prompt : a lake '', ''aspect_ratio: 4:3'']"

definition digits_only :: "string \<Rightarrow> int option" where
  "digits_only s = (if s = ''7'' then Some 7 else None)"

definition three_frames :: "frame list" where
  "three_frames = [frame_with_image, frame_without_image, frame_missing_file]"

definition two_keyframes :: "keyframe list" where
  "two_keyframes = [plain_keyframe ''a red fox'' None, plain_keyframe ''a lake'' None]"

text \<open>Two keyframes, the first with the explicit frame number 2.\<close>

definition clashing_keyframes :: "keyframe list" where
  "clashing_keyframes = [plain_keyframe ''a red fox'' (Some 2), plain_keyframe ''a lake'' None]"

text \<open>A log directory that already holds the report of an earlier run.\<close>

definition old_logs :: fs where
  "old_logs = [''logs/run_0.json'' \<mapsto> JsonDump (make_log_entry noon [] None (Some ''run_0''))]"

text \<open>The provider whose disk fails after two bytes of every write.\<close>

definition full_disk_provider :: provider where
  "full_disk_provider =
     good_provider\<lparr> disk := (\<lambda>p. WriteFails 2 (Exn ''No space left on device'')) \<rparr>"

text \<open>The response data of \<open>succeed_response\<close>.\<close>

definition succeed_data :: "(string \<times> json) list" where
  "succeed_data =
     [(''task_status'', JStr ''succeed''),
      (''task_result'', JObj [(''videos'', JList [JObj [(''url'', JStr ''http://cdn/v.mp4'')]])])]"

text \<open>
  The provider whose first status request of a task raises and whose later status
  requests all report a job in progress.
\<close>

definition noisy_provider :: provider where
  "noisy_provider =
     good_provider\<lparr> get_task_status :=
       (\<lambda>t k. if k = 0 then Inl (Exn ''connection reset'') else Inr processing_response) \<rparr>"

text \<open>The provider whose every download request raises.\<close>

definition broken_link_provider :: provider where
  "broken_link_provider = good_provider\<lparr> http_get := (\<lambda>u. Inl (Exn ''connection refused'')) \<rparr>"

section \<open>Properties of the result logger\<close>

lemma count_status_partition:
  "count_status ''success'' vs + count_status ''failed'' vs
     + length (filter (\<lambda>v. vr_status v \<noteq> ''success'' \<and> vr_status v \<noteq> ''failed'') vs)
   = length vs"
  unfolding count_status_def by (induction vs) auto

lemma count_status_full:
  "(count_status ''success'' vs + count_status ''failed'' vs = length vs)
   = (filter (\<lambda>v. vr_status v \<noteq> ''success'' \<and> vr_status v \<noteq> ''failed'') vs = [])"
proof -
  have "length (filter (\<lambda>v. vr_status v \<noteq> ''success'' \<and> vr_status v \<noteq> ''failed'') vs) = 0
        \<longleftrightarrow> count_status ''success'' vs + count_status ''failed'' vs = length vs"
    using count_status_partition [of vs] by arith
  then show ?thesis by auto
qed

text \<open>
  Claim C1, as the code has it. The summary of \<open>log_results\<close> counts the results with
  status \<open>success\<close>, those with status \<open>failed\<close>, and all results; a result with any other
  status, such as the \<open>skipped\<close> results of the video stage, is counted in the total only.
  So successful + failed + (number of results that are neither) = total, and
  successful + failed = total exactly when every result is a success or a failure.
\<close>

theorem summary_counts_partition:
  "successful_videos (le_summary (make_log_entry clk vs m rid))
     + failed_videos (le_summary (make_log_entry clk vs m rid))
     + length (filter (\<lambda>v. vr_status v \<noteq> ''success'' \<and> vr_status v \<noteq> ''failed'') vs)
   = video_frames (le_summary (make_log_entry clk vs m rid))
   \<and> ((successful_videos (le_summary (make_log_entry clk vs m rid))
         + failed_videos (le_summary (make_log_entry clk vs m rid))
        = video_frames (le_summary (make_log_entry clk vs m rid)))
       = (filter (\<lambda>v. vr_status v \<noteq> ''success'' \<and> vr_status v \<noteq> ''failed'') vs = []))"
  using count_status_partition [of vs] count_status_full [of vs]
  by (simp add: make_log_entry_def make_summary_def)

text \<open>
  Claim C1 as stated fails: the video stage turns a frame without an image into a
  \<open>skipped\<close> result, and for that one-item list the summary has total 1, successful 0 and
  failed 0.
\<close>

theorem summary_counts_skipped_counterexample:
  "snd (process_frame_images good_provider one_image [frame_without_image]
          ''out'' ''kling-v1'' ''std'' ''5'' False)
     = Inr [\<lparr> vr_frame_id = Some ''frame_2'', vr_status = ''skipped'',
               vr_reason = Some ''No image available'', vr_image_path = None,
               vr_video_path = None, vr_prompt = None,
               vr_original_frame = frame_without_image \<rparr>]
   \<and> successful_videos (make_summary
         [\<lparr> vr_frame_id = Some ''frame_2'', vr_status = ''skipped'',
             vr_reason = Some ''No image available'', vr_image_path = None,
             vr_video_path = None, vr_prompt = None,
             vr_original_frame = frame_without_image \<rparr>] None)
       + failed_videos (make_summary
         [\<lparr> vr_frame_id = Some ''frame_2'', vr_status = ''skipped'',
             vr_reason = Some ''No image available'', vr_image_path = None,
             vr_video_path = None, vr_prompt = None,
             vr_original_frame = frame_without_image \<rparr>] None)
     \<noteq> video_frames (make_summary
         [\<lparr> vr_frame_id = Some ''frame_2'', vr_status = ''skipped'',
             vr_reason = Some ''No image available'', vr_image_path = None,
             vr_video_path = None, vr_prompt = None,
             vr_original_frame = frame_without_image \<rparr>] None)"
  by (simp add: process_frame_images_def good_provider_def frame_without_image_def
        make_summary_def count_status_def)

lemma effective_run_id_nonempty: "effective_run_id clk rid \<noteq> []"
  by (simp add: effective_run_id_def split: option.splits)

lemma startswith_append_nonempty: "r \<noteq> [] \<Longrightarrow> startswith ''/'' (r @ s) = startswith ''/'' r"
  by (cases r) (simp_all add: startswith_def)

lemma report_paths_differ:
  "path_join d (effective_run_id clk rid @ ''.json'')
     \<noteq> path_join d (effective_run_id clk rid @ ''_summary.md'')"
  by (simp add: path_join_def startswith_append_nonempty effective_run_id_nonempty)

text \<open>
  Claim C6, as the code has it. A successful \<open>log_results\<close> writes exactly two files,
  \<open>run_id.json\<close> and \<open>run_id_summary.md\<close> in the output directory, and touches no other
  file; both then hold the new entry, whatever the directory held under these names
  before. There is one pair of files per run id because the names are functions of the
  run id, and a later call under the same run id replaces their content.
\<close>

theorem log_results_writes_two_files:
  assumes "log_results writable d clk files vs m rid = (files', Inr log_file)"
  shows "log_file = path_join d (effective_run_id clk rid @ ''.json'')
    \<and> files' log_file = Some (JsonDump (make_log_entry clk vs m rid))
    \<and> files' (path_join d (effective_run_id clk rid @ ''_summary.md''))
        = Some (MarkdownOf (make_log_entry clk vs m rid))
    \<and> (\<forall>p. p \<noteq> log_file \<and> p \<noteq> path_join d (effective_run_id clk rid @ ''_summary.md'')
           \<longrightarrow> files' p = files p)"
proof -
  let ?lf = "path_join d (effective_run_id clk rid @ ''.json'')"
  let ?sf = "path_join d (effective_run_id clk rid @ ''_summary.md'')"
  let ?e = "make_log_entry clk vs m rid"
  have rid: "le_run_id ?e = effective_run_id clk rid"
    by (simp add: make_log_entry_def)
  from assms have w: "writable ?lf" "writable ?sf"
    by (auto simp: log_results_def write_file_def Let_def rid split: if_splits)
  with assms have eq: "files' = (files(?lf \<mapsto> JsonDump ?e))(?sf \<mapsto> MarkdownOf ?e)"
    and lf: "log_file = ?lf"
    by (auto simp: log_results_def write_file_def Let_def rid)
  show ?thesis
    using report_paths_differ [of d clk rid] by (simp add: eq lf)
qed

theorem log_results_writes_two_files_witness:
  "log_results (\<lambda>p. True) ''logs'' noon old_logs [] None (Some ''run_1'')
     = (old_logs(''logs/run_1.json'' \<mapsto> JsonDump (make_log_entry noon [] None (Some ''run_1'')),
                 ''logs/run_1_summary.md'' \<mapsto>
                    MarkdownOf (make_log_entry noon [] None (Some ''run_1''))),
        Inr ''logs/run_1.json'')
   \<and> ''logs/run_1.json'' = path_join ''logs'' (effective_run_id noon (Some ''run_1'') @ ''.json'')
   \<and> (old_logs(''logs/run_1.json'' \<mapsto> JsonDump (make_log_entry noon [] None (Some ''run_1'')),
                 ''logs/run_1_summary.md'' \<mapsto>
                    MarkdownOf (make_log_entry noon [] None (Some ''run_1''))))
         ''logs/run_0.json'' = old_logs ''logs/run_0.json''"
proof -
  let ?files' = "old_logs(''logs/run_1.json'' \<mapsto> JsonDump (make_log_entry noon [] None (Some ''run_1'')),
                 ''logs/run_1_summary.md'' \<mapsto>
                    MarkdownOf (make_log_entry noon [] None (Some ''run_1'')))"
  have run: "log_results (\<lambda>p. True) ''logs'' noon old_logs [] None (Some ''run_1'')
     = (?files', Inr ''logs/run_1.json'')"
    by (simp add: log_results_def write_file_def Let_def make_log_entry_def
          effective_run_id_def path_join_def startswith_def)
  note t = log_results_writes_two_files [OF run]
  have other: "''logs/run_0.json'' \<noteq> ''logs/run_1.json''
      \<and> ''logs/run_0.json'' \<noteq> path_join ''logs'' (effective_run_id noon (Some ''run_1'') @ ''_summary.md'')"
    by (simp add: path_join_def startswith_def effective_run_id_def)
  from t have p: "''logs/run_1.json''
      = path_join ''logs'' (effective_run_id noon (Some ''run_1'') @ ''.json'')"
    by (rule conjunct1)
  from t have all: "\<forall>p. p \<noteq> ''logs/run_1.json''
        \<and> p \<noteq> path_join ''logs'' (effective_run_id noon (Some ''run_1'') @ ''_summary.md'')
      \<longrightarrow> ?files' p = old_logs p"
    by (elim conjE)
  have kept: "?files' ''logs/run_0.json'' = old_logs ''logs/run_0.json''"
    by (rule all [THEN spec, THEN mp, OF other])
  show ?thesis
    by (intro conjI) (rule run, rule p, rule kept)
qed

text \<open>
  Claim C6 as stated fails: two runs of the stage within the same second get the same
  run id, and the report of the second replaces the report of the first.
\<close>

theorem log_results_overwrite_counterexample:
  "fst (process_input_messages (\<lambda>p. True) ''logs'' noon Map.empty []
          \<lparr> mm_status = Some ''success'', mm_music_path = Some ''m.mp3'', mm_error = None \<rparr>)
       ''logs/run_20240101_120000.json''
     = Some (JsonDump (make_log_entry noon []
          (Some \<lparr> mm_status = Some ''success'', mm_music_path = Some ''m.mp3'', mm_error = None \<rparr>)
          (Some ''run_20240101_120000'')))
   \<and> fst (process_input_messages (\<lambda>p. True) ''logs'' noon
            (fst (process_input_messages (\<lambda>p. True) ''logs'' noon Map.empty []
               \<lparr> mm_status = Some ''success'', mm_music_path = Some ''m.mp3'', mm_error = None \<rparr>))
            []
            \<lparr> mm_status = Some ''error'', mm_music_path = None, mm_error = Some ''boom'' \<rparr>)
       ''logs/run_20240101_120000.json''
     = Some (JsonDump (make_log_entry noon []
          (Some \<lparr> mm_status = Some ''error'', mm_music_path = None, mm_error = Some ''boom'' \<rparr>)
          (Some ''run_20240101_120000'')))
   \<and> make_log_entry noon []
          (Some \<lparr> mm_status = Some ''success'', mm_music_path = Some ''m.mp3'', mm_error = None \<rparr>)
          (Some ''run_20240101_120000'')
     \<noteq> make_log_entry noon []
          (Some \<lparr> mm_status = Some ''error'', mm_music_path = None, mm_error = Some ''boom'' \<rparr>)
          (Some ''run_20240101_120000'')"
  by (simp add: process_input_messages_def log_results_def write_file_def Let_def
        make_log_entry_def effective_run_id_def path_join_def startswith_def noon_def
        make_summary_def)

section \<open>Properties of the keyframe parser\<close>

lemma append_if_prompt_append:
  "append_if_prompt kfs cf = kfs @ (if cf_prompt cf \<noteq> None then [keyframe_of cf] else [])"
  by (simp add: append_if_prompt_def)

lemma split_blocks_nonempty: "split_blocks ls \<noteq> []"
  by (induction ls) (auto split: list.splits)

lemma content_lines_Cons:
  "content_lines (raw # rest) =
     (if strip raw = [] \<or> startswith ''#'' (strip raw) then content_lines rest
      else strip raw # content_lines rest)"
  by (simp add: content_lines_def)

lemma parse_loop_blocks:
  "parse_loop to_int lines kfs cf =
     append_if_prompt kfs (foldl (apply_line to_int) cf (hd (blocks_of lines)))
       @ map keyframe_of
           (filter (\<lambda>f. cf_prompt f \<noteq> None) (map (block_frame to_int) (tl (blocks_of lines))))"
proof (induction lines arbitrary: kfs cf)
  case Nil
  show ?case by (simp add: blocks_of_def content_lines_def)
next
  case (Cons raw rest)
  let ?line = "strip raw"
  obtain b bs where B: "blocks_of rest = b # bs"
    using split_blocks_nonempty [of "content_lines rest"]
    by (cases "blocks_of rest") (auto simp: blocks_of_def)
  consider (skip) "?line = [] \<or> startswith ''#'' ?line"
    | (delim) "\<not> (?line = [] \<or> startswith ''#'' ?line)" "startswith ''---'' ?line"
    | (pair) "\<not> (?line = [] \<or> startswith ''#'' ?line)" "\<not> startswith ''---'' ?line"
    by blast
  then show ?case
  proof cases
    case skip
    then have "blocks_of (raw # rest) = blocks_of rest"
      by (simp add: blocks_of_def content_lines_Cons)
    with skip Cons.IH [of kfs cf] show ?thesis by (simp add: Let_def)
  next
    case delim
    then have "blocks_of (raw # rest) = [] # b # bs"
      using B by (simp add: blocks_of_def content_lines_Cons)
    with delim B Cons.IH [of "append_if_prompt kfs cf" empty_frame] show ?thesis
      by (simp add: Let_def append_if_prompt_append block_frame_def)
  next
    case pair
    then have "blocks_of (raw # rest) = (?line # b) # bs"
      using B by (simp add: blocks_of_def content_lines_Cons)
    with pair B Cons.IH [of kfs "apply_line to_int cf ?line"] show ?thesis
      by (simp add: Let_def)
  qed
qed

lemma apply_line_prompt:
  "(cf_prompt (apply_line to_int cf l) = None) = (cf_prompt cf = None \<and> \<not> is_prompt_line l)"
  by (auto simp: apply_line_def is_prompt_line_def set_field_def split: option.splits)

lemma foldl_apply_line_prompt:
  "(cf_prompt (foldl (apply_line to_int) cf b) = None)
     = (cf_prompt cf = None \<and> \<not> list_ex is_prompt_line b)"
  by (induction b arbitrary: cf) (auto simp: apply_line_prompt)

lemma block_frame_prompt: "(cf_prompt (block_frame to_int b) \<noteq> None) = has_prompt b"
  by (simp add: block_frame_def has_prompt_def foldl_apply_line_prompt empty_frame_def)

lemma parse_loop_keyframes_of_blocks:
  "parse_loop to_int lines [] empty_frame = keyframes_of_blocks to_int lines"
proof -
  obtain b bs where B: "blocks_of lines = b # bs"
    using split_blocks_nonempty [of "content_lines lines"]
    by (cases "blocks_of lines") (auto simp: blocks_of_def)
  have "parse_loop to_int lines [] empty_frame
      = map keyframe_of (filter (\<lambda>f. cf_prompt f \<noteq> None) (map (block_frame to_int) (b # bs)))"
    by (simp add: parse_loop_blocks B append_if_prompt_append block_frame_def)
  also have "\<dots> = map (\<lambda>b. keyframe_of (block_frame to_int b)) (filter has_prompt (b # bs))"
    by (simp only: filter_map map_map o_def block_frame_prompt)
  finally show ?thesis by (simp add: keyframes_of_blocks_def B)
qed

text \<open>
  Claim C10. The keyframes that \<open>parse_keyframe_file\<close> returns are those of the blocks
  that have a \<open>prompt\<close> line, in order: a block without one adds nothing to the list. The
  output message of the stage has status \<open>success\<close>, lists these keyframes, and its
  \<open>count\<close> is the number of blocks with a prompt.
\<close>

theorem blocks_without_prompt_are_dropped:
  assumes "read_lines file = Inr lines" and "file \<noteq> []"
    and "pm_keyframes_file message = Some file"
  shows "parse_keyframe_file read_lines to_int file = Inr (keyframes_of_blocks to_int lines)
    \<and> length (keyframes_of_blocks to_int lines) = length (filter has_prompt (blocks_of lines))
    \<and> field (parser_process_input_message read_lines to_int message) ''status''
        = Some (JStr ''success'')
    \<and> field (parser_process_input_message read_lines to_int message) ''keyframes''
        = Some (JList (map to_dict (keyframes_of_blocks to_int lines)))
    \<and> field (parser_process_input_message read_lines to_int message) ''count''
        = Some (JInt (int (length (filter has_prompt (blocks_of lines)))))"
proof -
  have p: "parse_keyframe_file read_lines to_int file = Inr (keyframes_of_blocks to_int lines)"
    using assms(1) by (simp add: parse_keyframe_file_def parse_loop_keyframes_of_blocks)
  have n: "length (keyframes_of_blocks to_int lines) = length (filter has_prompt (blocks_of lines))"
    by (simp add: keyframes_of_blocks_def)
  show ?thesis
    using assms(2,3) p n by (simp add: parser_process_input_message_def Let_def)
qed

lemma three_blocks_blocks:
  "blocks_of three_blocks
     = [[''prompt: a red fox''], [''seed: 7''], [''Prompt : a lake'', ''aspect_ratio: 4:3'']]"
  by (simp add: blocks_of_def three_blocks_def content_lines_def strip_def is_space_def
        startswith_def)

lemma three_blocks_with_prompt:
  "filter has_prompt (blocks_of three_blocks)
     = [[''prompt: a red fox''], [''Prompt : a lake'', ''aspect_ratio: 4:3'']]"
  unfolding three_blocks_blocks by code_simp

theorem blocks_without_prompt_are_dropped_witness:
  "field (parser_process_input_message (\<lambda>p. Inr three_blocks) digits_only
            \<lparr> pm_keyframes_file = Some ''kf.txt'', pm_default_aspect_ratio = None,
              pm_frame_id_prefix = None \<rparr>) ''count'' = Some (JInt 2)
   \<and> field (parser_process_input_message (\<lambda>p. Inr three_blocks) digits_only
            \<lparr> pm_keyframes_file = Some ''kf.txt'', pm_default_aspect_ratio = None,
              pm_frame_id_prefix = None \<rparr>) ''status'' = Some (JStr ''success'')
   \<and> filter has_prompt (blocks_of three_blocks)
       = [[''prompt: a red fox''], [''Prompt : a lake'', ''aspect_ratio: 4:3'']]"
  using blocks_without_prompt_are_dropped
          [of "\<lambda>p. Inr three_blocks" "''kf.txt''" three_blocks
              "\<lparr> pm_keyframes_file = Some ''kf.txt'', pm_default_aspect_ratio = None,
                 pm_frame_id_prefix = None \<rparr>" digits_only]
  by (simp add: three_blocks_with_prompt)

text \<open>
  Claim C4, at the keyframe parser. When \<open>keyframes_file\<close> is missing (or empty),
  \<open>process_input_message\<close> returns a message whose only field is \<open>error\<close>: it has no
  \<open>status\<close> field. The other error paths of the same stage do set \<open>status\<close> to
  \<open>error\<close>: the \<open>except\<close> branch of \<open>process_input_message\<close> (here: the file cannot be
  read) and the \<open>except\<close> branch of \<open>main\<close>.
\<close>

theorem missing_keyframes_file_has_no_status:
  "parser_main read_lines to_int
       (Inr \<lparr> pm_keyframes_file = None, pm_default_aspect_ratio = None,
              pm_frame_id_prefix = None \<rparr>)
     = JObj [(''error'', JStr missing_keyframes_file)]
   \<and> field (parser_main read_lines to_int
         (Inr \<lparr> pm_keyframes_file = None, pm_default_aspect_ratio = None,
                pm_frame_id_prefix = None \<rparr>)) ''status'' = None
   \<and> field (parser_main (\<lambda>p. Inl (Exn ''No such file'')) to_int
         (Inr \<lparr> pm_keyframes_file = Some ''kf.txt'', pm_default_aspect_ratio = None,
                pm_frame_id_prefix = None \<rparr>)) ''status'' = Some (JStr ''error'')
   \<and> field (parser_main read_lines to_int (Inl (Exn ''Expecting value''))) ''status''
       = Some (JStr ''error'')"
  by (simp add: parser_main_def parser_process_input_message_def parse_keyframe_file_def)

section \<open>Properties of the polling loop\<close>

lemma frames_loop_ids:
  "map vr_frame_id (snd (frames_loop prov dir mn mode dur ud frames files results))
     = map vr_frame_id results @ map fr_frame_id frames"
proof -
  have t: "map vr_frame_id (snd (frames_loop prov dir mn mode dur True frames files results))
     = map vr_frame_id results @ map fr_frame_id frames"
    for files results
    by (induction frames arbitrary: files results) (simp_all add: Let_def split: prod.splits)
  have f: "map vr_frame_id (snd (frames_loop prov dir mn mode dur False frames files results))
     = map vr_frame_id results @ map fr_frame_id frames"
    for files results
    by (induction frames arbitrary: files results) (simp_all add: Let_def split: prod.splits)
  show ?thesis by (cases ud) (simp_all add: t f)
qed

lemma frames_loop_originals:
  "map vr_original_frame (snd (frames_loop prov dir mn mode dur ud frames files results))
     = map vr_original_frame results @ frames"
proof -
  have t: "map vr_original_frame (snd (frames_loop prov dir mn mode dur True frames files results))
     = map vr_original_frame results @ frames"
    for files results
    by (induction frames arbitrary: files results) (simp_all add: Let_def split: prod.splits)
  have f: "map vr_original_frame (snd (frames_loop prov dir mn mode dur False frames files results))
     = map vr_original_frame results @ frames"
    for files results
    by (induction frames arbitrary: files results) (simp_all add: Let_def split: prod.splits)
  show ?thesis by (cases ud) (simp_all add: t f)
qed

lemma poll_loop_pending_step:
  assumes "pending_response (status_of k)" and "e < m"
  shows "poll_loop m status_of e k = poll_loop m status_of (e + check_interval) (Suc k)"
  using assms
  by (subst poll_loop.simps) (auto simp: pending_response_def split: sum.splits)

lemma poll_loop_pending_steps:
  assumes "\<forall>j<n. pending_response (status_of (k + j))"
    and "n = 0 \<or> e + int (n - 1) * check_interval < m"
  shows "poll_loop m status_of e k = poll_loop m status_of (e + int n * check_interval) (k + n)"
  using assms
proof (induction n arbitrary: e k)
  case 0
  show ?case by simp
next
  case (Suc n)
  have lt: "e + int n * check_interval < m"
    using Suc.prems(2) by simp
  then have e: "e < m"
    by (smt (verit) check_interval_def mult_nonneg_nonneg of_nat_0_le_iff)
  have p0: "pending_response (status_of k)"
    using Suc.prems(1) by (metis add.right_neutral zero_less_Suc)
  have rest: "\<forall>j<n. pending_response (status_of (Suc k + j))"
    using Suc.prems(1) by (metis Suc_less_eq add_Suc_shift)
  have bound: "n = 0 \<or> (e + check_interval) + int (n - 1) * check_interval < m"
  proof (cases n)
    case 0
    then show ?thesis by simp
  next
    case (Suc n')
    with lt show ?thesis by (simp add: algebra_simps)
  qed
  have "poll_loop m status_of e k = poll_loop m status_of (e + check_interval) (Suc k)"
    using p0 e by (rule poll_loop_pending_step)
  also have "\<dots> = poll_loop m status_of ((e + check_interval) + int n * check_interval) (Suc k + n)"
    using rest bound by (rule Suc.IH)
  finally show ?case by (simp add: algebra_simps)
qed

lemma poll_loop_timeout: "\<not> e < m \<Longrightarrow> poll_loop m status_of e k = (TimedOut, k, e)"
  by (subst poll_loop.simps) simp


lemma generate_not_completed:
  assumes "\<And>t. \<forall>d. fst (poll_loop m (get_task_status prov t) 0 0) \<noteq> Completed d"
  shows "generate_from_image_within m prov dir files ip p fid mode dur mn = (files, None)"
proof (cases "files ip")
  case None
  then show ?thesis by (simp add: generate_from_image_within_def)
next
  case (Some image_bytes)
  let ?rq = "\<lparr> vq_model_name = mn, vq_image = image_bytes, vq_prompt = p,
                vq_mode = mode, vq_duration = dur \<rparr>"
  show ?thesis
  proof (cases "submit_video prov ?rq")
    case (Inl e)
    with Some show ?thesis by (simp add: generate_from_image_within_def)
  next
    case (Inr t)
    from assms [of t] have "(case fst (poll_loop m (get_task_status prov t) 0 0) of
        Completed c \<Rightarrow> X c | JobFailed \<Rightarrow> (files, None) | TimedOut \<Rightarrow> (files, None)
      | Raised e \<Rightarrow> (files, None)) = (files, None)"
      for X :: "(string \<times> json) list \<Rightarrow> blobs \<times> string option"
      by (cases "fst (poll_loop m (get_task_status prov t) 0 0)") auto
    with Some Inr show ?thesis by (simp add: generate_from_image_within_def)
  qed
qed

lemma pending_timeout:
  assumes "never_terminal status_of" and "0 < m"
  shows "poll_loop m status_of 0 0
           = (TimedOut, nat ((m + check_interval - 1) div check_interval),
              int (nat ((m + check_interval - 1) div check_interval)) * check_interval)"
proof -
  let ?n = "nat ((m + check_interval - 1) div check_interval)"
  have n1: "0 + int (?n - 1) * check_interval < m"
    using assms(2) by (simp add: check_interval_def) presburger
  have n2: "\<not> int ?n * check_interval < m"
    using assms(2) by (simp add: check_interval_def) presburger
  have "poll_loop m status_of 0 0 = poll_loop m status_of (0 + int ?n * check_interval) (0 + ?n)"
    using assms(1) n1 by (intro poll_loop_pending_steps) (simp_all add: never_terminal_def)
  also have "\<dots> = (TimedOut, ?n, int ?n * check_interval)"
    using n2 by (simp add: poll_loop_timeout)
  finally show ?thesis .
qed

lemma failed_item_status:
  assumes "fr_image_path frame = Some ip" and "ip \<noteq> []"
    and "\<And>p. generate_from_image prov dir files ip p (fr_frame_id frame) mode dur mn = (files, None)"
  shows "map vr_status (snd (frames_loop prov dir mn mode dur ud [frame] files [])) = [''failed'']"
  using assms by (simp add: Let_def)

lemma poll_loop_succeed:
  "e < m \<Longrightarrow> status_of k = Inr r \<Longrightarrow> classify r = StepSucceed c \<Longrightarrow>
   poll_loop m status_of e k = (Completed c, Suc k, e)"
  by (subst poll_loop.simps) simp

lemma generate_completed:
  assumes "files ip = Some img"
    and "submit_video prov \<lparr> vq_model_name = mn, vq_image = img, vq_prompt = p,
                              vq_mode = mode, vq_duration = dur \<rparr> = Inr t"
    and "fst (poll_loop m (get_task_status prov t) 0 0) = Completed c"
    and "video_url_of c = Inr (Some (JStr url))"
  shows "generate_from_image_within m prov dir files ip p fid mode dur mn =
     (case http_get prov url of
        Inl e \<Rightarrow> (files, None)
      | Inr body \<Rightarrow>
          (case disk prov (path_join dir (str_opt fid @ ''.mp4'')) of
             WriteOk \<Rightarrow> (files(path_join dir (str_opt fid @ ''.mp4'') \<mapsto> body),
                          Some (path_join dir (str_opt fid @ ''.mp4'')))
           | OpenFails e \<Rightarrow> (files, None)
           | WriteFails n e \<Rightarrow>
               (files(path_join dir (str_opt fid @ ''.mp4'') \<mapsto> take n body), None)))"
  using assms
  by (simp add: generate_from_image_within_def download_def Let_def
        split: sum.splits disk_outcome.splits)

lemma frames_loop_step:
  assumes "fr_image_path frame = Some ip" and "ip \<noteq> []"
    and "generate_from_image prov dir files ip
           (if ud then enhance_prompt_with_dify prov (get_default (fr_prompt frame) [])
            else get_default (fr_prompt frame) [])
           (fr_frame_id frame) mode dur mn = (files', video_path)"
  shows "frames_loop prov dir mn mode dur ud (frame # rest) files results
     = frames_loop prov dir mn mode dur ud rest files'
         (results @
          [\<lparr> vr_frame_id = fr_frame_id frame,
              vr_status = (if video_path \<noteq> None then ''success'' else ''failed''),
              vr_reason = None, vr_image_path = Some ip, vr_video_path = video_path,
              vr_prompt = Some (if ud then enhance_prompt_with_dify prov
                                             (get_default (fr_prompt frame) [])
                                else get_default (fr_prompt frame) []),
              vr_original_frame = frame \<rparr>])"
  using assms by (cases ud) (simp_all add: Let_def)

text \<open>
  Claim C5, as the code has it. When every status request returns a response and none
  of them reports a terminal state, the loop ends in its timeout branch after exactly
  \<open>\<lceil>max_wait / 5\<rceil>\<close> status requests, 5 being the interval of the source: \<open>elapsed\<close> is
  then the first multiple of the interval that is not below \<open>max_wait\<close>, so the timeout
  comes neither before \<open>max_wait\<close> nor an interval or more after it. With
  \<open>max_wait = 10\<close> that is 2 requests, with the source's 300 it is 60.
  \<open>generate_from_image\<close> then returns \<open>None\<close> without touching a file, and the item is
  recorded as \<open>failed\<close>. The failure comes from the status requests: with the same
  provider, had the first one reported \<open>succeed\<close> with a video whose download succeeds,
  the function would have returned the path of the video.
\<close>

theorem poll_times_out_at_max_wait:
  assumes "never_terminal status_of" and "0 < max_wait"
    and "get_task_status prov = (\<lambda>t. status_of)"
  shows "poll_loop max_wait status_of 0 0
           = (TimedOut, nat ((max_wait + check_interval - 1) div check_interval),
              int (nat ((max_wait + check_interval - 1) div check_interval)) * check_interval)
    \<and> max_wait \<le> int (nat ((max_wait + check_interval - 1) div check_interval)) * check_interval
    \<and> int (nat ((max_wait + check_interval - 1) div check_interval)) * check_interval
        < max_wait + check_interval
    \<and> poll_loop 10 status_of 0 0 = (TimedOut, 2, 10)
    \<and> poll_loop 300 status_of 0 0 = (TimedOut, 60, 300)
    \<and> generate_from_image_within max_wait prov dir files ip p fid mode dur mn = (files, None)
    \<and> (fr_image_path frame = Some ip \<and> ip \<noteq> [] \<longrightarrow>
        map vr_status (snd (frames_loop prov dir mn mode dur ud [frame] files [])) = [''failed''])
    \<and> (files ip = Some img
        \<and> submit_video prov \<lparr> vq_model_name = mn, vq_image = img, vq_prompt = p,
                                 vq_mode = mode, vq_duration = dur \<rparr> = Inr t
        \<and> classify r = StepSucceed c \<and> video_url_of c = Inr (Some (JStr url))
        \<and> http_get prov url = Inr body
        \<and> disk prov (path_join dir (str_opt fid @ ''.mp4'')) = WriteOk
        \<longrightarrow> generate_from_image_within max_wait (prov\<lparr> get_task_status := (\<lambda>t k. Inr r) \<rparr>)
              dir files ip p fid mode dur mn
            = (files(path_join dir (str_opt fid @ ''.mp4'') \<mapsto> body),
               Some (path_join dir (str_opt fid @ ''.mp4''))))"
proof -
  have a: "poll_loop max_wait status_of 0 0
           = (TimedOut, nat ((max_wait + check_interval - 1) div check_interval),
              int (nat ((max_wait + check_interval - 1) div check_interval)) * check_interval)"
    using assms(1,2) by (rule pending_timeout)
  have b: "max_wait \<le> int (nat ((max_wait + check_interval - 1) div check_interval)) * check_interval"
    using assms(2) by (simp add: check_interval_def) presburger
  have c: "int (nat ((max_wait + check_interval - 1) div check_interval)) * check_interval
        < max_wait + check_interval"
    using assms(2) by (simp add: check_interval_def) presburger
  have d: "poll_loop 10 status_of 0 0 = (TimedOut, 2, 10)"
    using pending_timeout [OF assms(1), of 10] by (simp add: check_interval_def)
  have e: "poll_loop 300 status_of 0 0 = (TimedOut, 60, 300)"
    using pending_timeout [OF assms(1), of 300] by (simp add: check_interval_def)
  have f: "generate_from_image_within m prov dir files ip' p' fid' mode dur mn = (files, None)"
    if "0 < m" for m ip' p' fid'
    by (rule generate_not_completed) (simp add: assms(3) pending_timeout [OF assms(1) that])
  have g: "fr_image_path frame = Some ip \<and> ip \<noteq> [] \<longrightarrow>
        map vr_status (snd (frames_loop prov dir mn mode dur ud [frame] files [])) = [''failed'']"
  proof (intro impI, elim conjE)
    assume "fr_image_path frame = Some ip" and "ip \<noteq> []"
    then show "map vr_status (snd (frames_loop prov dir mn mode dur ud [frame] files []))
                 = [''failed'']"
      by (rule failed_item_status) (simp add: generate_from_image_def f)
  qed
  have h: "files ip = Some img
        \<and> submit_video prov \<lparr> vq_model_name = mn, vq_image = img, vq_prompt = p,
                                 vq_mode = mode, vq_duration = dur \<rparr> = Inr t
        \<and> classify r = StepSucceed c \<and> video_url_of c = Inr (Some (JStr url))
        \<and> http_get prov url = Inr body
        \<and> disk prov (path_join dir (str_opt fid @ ''.mp4'')) = WriteOk
        \<longrightarrow> generate_from_image_within max_wait (prov\<lparr> get_task_status := (\<lambda>t k. Inr r) \<rparr>)
              dir files ip p fid mode dur mn
            = (files(path_join dir (str_opt fid @ ''.mp4'') \<mapsto> body),
               Some (path_join dir (str_opt fid @ ''.mp4'')))"
  proof (intro impI, elim conjE)
    let ?prov = "prov\<lparr> get_task_status := (\<lambda>t k. Inr r) \<rparr>"
    assume h1: "files ip = Some img"
      and h2: "submit_video prov \<lparr> vq_model_name = mn, vq_image = img, vq_prompt = p,
                                 vq_mode = mode, vq_duration = dur \<rparr> = Inr t"
      and h3: "classify r = StepSucceed c" and h4: "video_url_of c = Inr (Some (JStr url))"
      and h5: "http_get prov url = Inr body"
      and h6: "disk prov (path_join dir (str_opt fid @ ''.mp4'')) = WriteOk"
    have s: "submit_video ?prov \<lparr> vq_model_name = mn, vq_image = img, vq_prompt = p,
                                 vq_mode = mode, vq_duration = dur \<rparr> = Inr t"
      using h2 by simp
    have "poll_loop max_wait (\<lambda>k. Inr r) 0 0 = (Completed c, Suc 0, 0)"
      using assms(2) h3 by (intro poll_loop_succeed) simp_all
    then have q: "fst (poll_loop max_wait (get_task_status ?prov t) 0 0) = Completed c"
      by simp
    have "generate_from_image_within max_wait ?prov dir files ip p fid mode dur mn =
       (case http_get ?prov url of
          Inl e \<Rightarrow> (files, None)
        | Inr body \<Rightarrow>
            (case disk ?prov (path_join dir (str_opt fid @ ''.mp4'')) of
               WriteOk \<Rightarrow> (files(path_join dir (str_opt fid @ ''.mp4'') \<mapsto> body),
                            Some (path_join dir (str_opt fid @ ''.mp4'')))
             | OpenFails e \<Rightarrow> (files, None)
             | WriteFails n e \<Rightarrow>
                 (files(path_join dir (str_opt fid @ ''.mp4'') \<mapsto> take n body), None)))"
      by (rule generate_completed [where img = img and t = t and c = c])
         (rule h1, rule s, rule q, rule h4)
    then show "generate_from_image_within max_wait ?prov dir files ip p fid mode dur mn
            = (files(path_join dir (str_opt fid @ ''.mp4'') \<mapsto> body),
               Some (path_join dir (str_opt fid @ ''.mp4'')))"
      using h5 h6 by simp
  qed
  show ?thesis
    by (intro conjI) (rule a, rule b, rule c, rule d, rule e, rule f [OF assms(2)], rule g, rule h)
qed

lemma succeed_response_classified: "classify succeed_response = StepSucceed succeed_data"
  by (simp add: classify_def succeed_response_def succeed_data_def)

lemma succeed_data_url: "video_url_of succeed_data = Inr (Some (JStr ''http://cdn/v.mp4''))"
  by (simp add: video_url_of_def succeed_data_def)

lemma frame_1_video_path: "path_join ''out'' (str_opt (Some ''frame_1'') @ ''.mp4'') = ''out/frame_1.mp4''"
  by (simp add: path_join_def startswith_def str_opt_def)

theorem poll_times_out_at_max_wait_witness:
  "never_terminal (\<lambda>k. Inr processing_response)
   \<and> get_task_status slow_provider = (\<lambda>t k. Inr processing_response)
   \<and> poll_loop 10 (\<lambda>k. Inr processing_response) 0 0 = (TimedOut, 2, 10)
   \<and> generate_from_image_within 10 slow_provider ''out'' one_image ''img/frame_1.png''
        ''a red fox'' (Some ''frame_1'') ''std'' ''5'' ''kling-v1'' = (one_image, None)
   \<and> map vr_status (snd (frames_loop slow_provider ''out'' ''kling-v1'' ''std'' ''5'' False
        [frame_with_image] one_image [])) = [''failed'']
   \<and> generate_from_image_within 10
        (slow_provider\<lparr> get_task_status := (\<lambda>t k. Inr succeed_response) \<rparr>)
        ''out'' one_image ''img/frame_1.png'' ''a red fox'' (Some ''frame_1'') ''std'' ''5''
        ''kling-v1''
       = (one_image(''out/frame_1.mp4'' \<mapsto> ''DATA''), Some ''out/frame_1.mp4'')"
proof -
  have h1: "never_terminal (\<lambda>k. Inr processing_response)"
    by (simp add: never_terminal_def pending_response_def classify_def processing_response_def)
  have h2: "(0::int) < 10" by simp
  have h3: "get_task_status slow_provider = (\<lambda>t k. Inr processing_response)"
    by (simp add: slow_provider_def good_provider_def)
  have h4: "fr_image_path frame_with_image = Some ''img/frame_1.png'' \<and> ''img/frame_1.png'' \<noteq> []"
    by (simp add: frame_with_image_def)
  have h5: "one_image ''img/frame_1.png'' = Some ''PNG''
      \<and> submit_video slow_provider \<lparr> vq_model_name = ''kling-v1'', vq_image = ''PNG'',
            vq_prompt = ''a red fox'', vq_mode = ''std'', vq_duration = ''5'' \<rparr> = Inr ''vid-task''
      \<and> classify succeed_response = StepSucceed succeed_data
      \<and> video_url_of succeed_data = Inr (Some (JStr ''http://cdn/v.mp4''))
      \<and> http_get slow_provider ''http://cdn/v.mp4'' = Inr ''DATA''
      \<and> disk slow_provider (path_join ''out'' (str_opt (Some ''frame_1'') @ ''.mp4'')) = WriteOk"
    by (simp add: one_image_def slow_provider_def good_provider_def
          succeed_response_classified succeed_data_url)
  note t = poll_times_out_at_max_wait [OF h1 h2 h3, where dir = "''out''" and files = one_image
      and ip = "''img/frame_1.png''" and p = "''a red fox''" and fid = "Some ''frame_1''"
      and mode = "''std''" and dur = "''5''" and mn = "''kling-v1''" and frame = frame_with_image
      and ud = False and img = "''PNG''" and t = "''vid-task''" and r = succeed_response
      and c = succeed_data and url = "''http://cdn/v.mp4''" and body = "''DATA''"]
  note t4 = t [THEN conjunct2, THEN conjunct2, THEN conjunct2, THEN conjunct1]
  note t6 = t [THEN conjunct2, THEN conjunct2, THEN conjunct2, THEN conjunct2, THEN conjunct2,
      THEN conjunct1]
  note t7 = t [THEN conjunct2, THEN conjunct2, THEN conjunct2, THEN conjunct2, THEN conjunct2,
      THEN conjunct2, THEN conjunct1, THEN mp, OF h4]
  note t8 = t [THEN conjunct2, THEN conjunct2, THEN conjunct2, THEN conjunct2, THEN conjunct2,
      THEN conjunct2, THEN conjunct2, THEN mp, OF h5, unfolded frame_1_video_path]
  show ?thesis
    by (intro conjI) (rule h1, rule h3, rule t4, rule t6, rule t7, rule t8)
qed

text \<open>
  Claim C5 as stated fails. No status request of the job reports a terminal state: the
  first one raises and the later ones report a job in progress. With \<open>max_wait = 10\<close> the
  loop makes one status request, not two, and ends at \<open>elapsed = 0\<close> with the exception,
  not in its timeout branch.
\<close>

theorem raising_poll_prevents_timeout_counterexample:
  "get_task_status noisy_provider ''vid-task'' 0 = Inl (Exn ''connection reset'')
   \<and> get_task_status noisy_provider ''vid-task'' 1 = Inr processing_response
   \<and> get_task_status noisy_provider ''vid-task'' 2 = Inr processing_response
   \<and> classify processing_response = StepPending
   \<and> poll_loop 10 (get_task_status noisy_provider ''vid-task'') 0 0
       = (Raised (Exn ''connection reset''), 1, 0)
   \<and> fst (poll_loop 10 (get_task_status noisy_provider ''vid-task'') 0 0) \<noteq> TimedOut"
  by (simp add: noisy_provider_def good_provider_def poll_loop.simps classify_def
        processing_response_def)




section \<open>Properties of the image and video stages\<close>

lemma frames_loop_shape:
  assumes "list_all video_result_shape results"
  shows "list_all video_result_shape (snd (frames_loop prov dir mn mode dur ud frames files results))"
proof -
  have t: "list_all video_result_shape results \<Longrightarrow>
      list_all video_result_shape (snd (frames_loop prov dir mn mode dur True frames files results))"
    for files results
    by (induction frames arbitrary: files results)
       (auto simp: Let_def video_result_shape_def split: prod.splits)
  have f: "list_all video_result_shape results \<Longrightarrow>
      list_all video_result_shape (snd (frames_loop prov dir mn mode dur False frames files results))"
    for files results
    by (induction frames arbitrary: files results)
       (auto simp: Let_def video_result_shape_def split: prod.splits)
  show ?thesis using assms by (cases ud) (simp_all add: t f)
qed

lemma keyframes_loop_ids:
  "map ir_frame_id (snd (keyframes_loop prov dir mn pre idx kfs files results))
     = map ir_frame_id results @ map (frame_id_of pre) (enumerate idx kfs)"
  by (induction kfs arbitrary: idx files results)
     (simp_all add: Let_def frame_id_of_def split: prod.splits)

lemma keyframes_loop_originals:
  "map ir_original_keyframe (snd (keyframes_loop prov dir mn pre idx kfs files results))
     = map ir_original_keyframe results @ kfs"
  by (induction kfs arbitrary: idx files results) (simp_all add: Let_def split: prod.splits)

lemma keyframes_loop_shape:
  "list_all image_result_shape results \<Longrightarrow>
   list_all image_result_shape (snd (keyframes_loop prov dir mn pre idx kfs files results))"
  by (induction kfs arbitrary: idx files results)
     (auto simp: Let_def image_result_shape_def split: prod.splits)

lemma process_frame_images_results:
  "init_error prov = None \<Longrightarrow>
   snd (process_frame_images prov files frames dir mn mode dur ud)
     = Inr (snd (frames_loop prov dir mn mode dur ud frames files []))"
  by (simp add: process_frame_images_def split: prod.splits)

lemma process_keyframes_results:
  "init_error prov = None \<Longrightarrow>
   snd (process_keyframes prov files kfs dir mn pre)
     = Inr (snd (keyframes_loop prov dir mn pre 0 kfs files []))"
  by (simp add: process_keyframes_def split: prod.splits)

lemma process_frame_images_Inr:
  "snd (process_frame_images prov files frames dir mn mode dur ud) = Inr results \<Longrightarrow>
   results = snd (frames_loop prov dir mn mode dur ud frames files [])"
  by (auto simp: process_frame_images_def split: option.splits prod.splits)

lemma process_keyframes_Inr:
  "snd (process_keyframes prov files kfs dir mn pre) = Inr results \<Longrightarrow>
   results = snd (keyframes_loop prov dir mn pre 0 kfs files [])"
  by (auto simp: process_keyframes_def split: option.splits prod.splits)

lemmas eval_defs =
  process_frame_images_def process_keyframes_def good_provider_def one_image_def
  frame_with_image_def frame_without_image_def frame_missing_file_def three_frames_def
  generate_from_image_def generate_from_image_within_def generate_def
  poll_loop.simps classify_def succeed_response_def video_url_of_def download_def
  path_join_def startswith_def str_opt_def get_default_def Let_def

lemma three_frames_results:
  "snd (process_frame_images good_provider one_image three_frames
          ''out'' ''kling-v1'' ''std'' ''5'' False)
     = Inr [\<lparr> vr_frame_id = Some ''frame_1'', vr_status = ''success'', vr_reason = None,
               vr_image_path = Some ''img/frame_1.png'',
               vr_video_path = Some ''out/frame_1.mp4'',
               vr_prompt = Some ''a red fox'', vr_original_frame = frame_with_image \<rparr>,
             \<lparr> vr_frame_id = Some ''frame_2'', vr_status = ''skipped'',
               vr_reason = Some ''No image available'', vr_image_path = None,
               vr_video_path = None, vr_prompt = None,
               vr_original_frame = frame_without_image \<rparr>,
             \<lparr> vr_frame_id = Some ''frame_3'', vr_status = ''failed'', vr_reason = None,
               vr_image_path = Some ''img/frame_3.png'', vr_video_path = None,
               vr_prompt = Some ''a hill'', vr_original_frame = frame_missing_file \<rparr>]"
  by (simp add: eval_defs)

lemma str_int_1_2: "str_int 1 = ''1''" "str_int 2 = ''2''"
  by code_simp+

text \<open>
  Claim C9. When the set-up of a stage succeeds, the stage returns one result per input
  item, in input order: the video stage copies each frame's \<open>frame_id\<close> (and the frame
  itself) into its result, the image stage gives the keyframe at index \<open>i\<close> the id it
  assigns to it and keeps the keyframe in the result.
\<close>

theorem results_follow_input_order:
  assumes "init_error prov = None"
  shows "(\<exists>results.
            snd (process_frame_images prov files frames dir mn mode dur ud) = Inr results
          \<and> length results = length frames
          \<and> map vr_frame_id results = map fr_frame_id frames
          \<and> map vr_original_frame results = frames)
    \<and> (\<exists>results.
            snd (process_keyframes prov files2 kfs dir2 mn2 pre) = Inr results
          \<and> length results = length kfs
          \<and> map ir_frame_id results = map (frame_id_of pre) (enumerate 0 kfs)
          \<and> map ir_original_keyframe results = kfs)"
proof -
  let ?v = "snd (frames_loop prov dir mn mode dur ud frames files [])"
  let ?i = "snd (keyframes_loop prov dir2 mn2 pre 0 kfs files2 [])"
  have v1: "map vr_frame_id ?v = map fr_frame_id frames"
    by (simp add: frames_loop_ids)
  have v2: "map vr_original_frame ?v = frames"
    by (simp add: frames_loop_originals)
  have v3: "length ?v = length frames"
    using arg_cong [OF v2, of length] by simp
  have i1: "map ir_frame_id ?i = map (frame_id_of pre) (enumerate 0 kfs)"
    by (simp add: keyframes_loop_ids)
  have i2: "map ir_original_keyframe ?i = kfs"
    by (simp add: keyframes_loop_originals)
  have i3: "length ?i = length kfs"
    using arg_cong [OF i2, of length] by simp
  show ?thesis
    using process_frame_images_results [OF assms] process_keyframes_results [OF assms]
      v1 v2 v3 i1 i2 i3 by blast
qed

theorem results_follow_input_order_witness:
  "init_error good_provider = None
   \<and> (\<exists>results.
         snd (process_frame_images good_provider one_image three_frames
                ''out'' ''kling-v1'' ''std'' ''5'' False) = Inr results
       \<and> length results = 3
       \<and> map vr_frame_id results = [Some ''frame_1'', Some ''frame_2'', Some ''frame_3''])
   \<and> (\<exists>results.
         snd (process_keyframes good_provider Map.empty two_keyframes
                ''img'' ''kling-v1-5'' ''frame_'') = Inr results
       \<and> length results = 2
       \<and> map ir_original_keyframe results = two_keyframes)"
proof -
  have h: "init_error good_provider = None"
    by (simp add: good_provider_def)
  have ids: "map fr_frame_id three_frames = [Some ''frame_1'', Some ''frame_2'', Some ''frame_3'']"
    "length three_frames = 3" "length two_keyframes = 2"
    by (simp_all add: three_frames_def frame_with_image_def frame_without_image_def
          frame_missing_file_def two_keyframes_def)
  note t = results_follow_input_order [OF h, of one_image three_frames "''out''" "''kling-v1''"
      "''std''" "''5''" False Map.empty two_keyframes "''img''" "''kling-v1-5''" "''frame_''"]
  from t obtain vs where v:
    "snd (process_frame_images good_provider one_image three_frames
            ''out'' ''kling-v1'' ''std'' ''5'' False) = Inr vs"
    "length vs = length three_frames" "map vr_frame_id vs = map fr_frame_id three_frames"
    by blast
  from t obtain rs where r:
    "snd (process_keyframes good_provider Map.empty two_keyframes
            ''img'' ''kling-v1-5'' ''frame_'') = Inr rs"
    "length rs = length two_keyframes" "map ir_original_keyframe rs = two_keyframes"
    by blast
  show ?thesis
    using h v r by (simp add: ids)
qed

text \<open>
  Claim C2, as the code has it. A result of the video stage has one of three shapes:
  status \<open>success\<close> with an output path and no error reason; status \<open>failed\<close> with neither
  an output path (\<open>video_path\<close> is \<open>None\<close>) nor an error reason; status \<open>skipped\<close> with the
  reason \<open>No image available\<close> and no output path. A result of the image stage is a
  \<open>success\<close> with an output path or a \<open>failed\<close> with \<open>image_path\<close> \<open>None\<close>; it has no field
  for an error reason. The cause of a failure goes to the log only.
\<close>

theorem item_results_have_one_of_the_shapes:
  assumes "snd (process_frame_images prov files frames dir mn mode dur ud) = Inr vresults"
    and "snd (process_keyframes prov files2 kfs dir2 mn2 pre) = Inr iresults"
  shows "list_all video_result_shape vresults \<and> list_all image_result_shape iresults"
  using process_frame_images_Inr [OF assms(1)] process_keyframes_Inr [OF assms(2)]
  by (simp add: frames_loop_shape keyframes_loop_shape)

theorem item_results_have_one_of_the_shapes_witness:
  "map vr_status (snd (frames_loop good_provider ''out'' ''kling-v1'' ''std'' ''5'' False
        three_frames one_image [])) = [''success'', ''skipped'', ''failed'']
   \<and> list_all video_result_shape (snd (frames_loop good_provider ''out'' ''kling-v1'' ''std''
        ''5'' False three_frames one_image []))
   \<and> list_all image_result_shape (snd (keyframes_loop good_provider ''img'' ''kling-v1-5''
        ''frame_'' 0 two_keyframes Map.empty []))"
proof -
  have h: "init_error good_provider = None"
    by (simp add: good_provider_def)
  have s: "map vr_status (snd (frames_loop good_provider ''out'' ''kling-v1'' ''std'' ''5'' False
        three_frames one_image [])) = [''success'', ''skipped'', ''failed'']"
    using three_frames_results unfolding process_frame_images_results [OF h] by simp
  from item_results_have_one_of_the_shapes
         [OF process_frame_images_results [OF h] process_keyframes_results [OF h]] s
  show ?thesis by blast
qed

text \<open>
  Claim C2 as stated fails: the image file of the frame does not exist, the item is
  recorded as \<open>failed\<close>, and its result has no error reason.
\<close>

theorem failed_result_without_reason_counterexample:
  "snd (process_frame_images good_provider one_image [frame_missing_file]
          ''out'' ''kling-v1'' ''std'' ''5'' False)
     = Inr [\<lparr> vr_frame_id = Some ''frame_3'', vr_status = ''failed'', vr_reason = None,
               vr_image_path = Some ''img/frame_3.png'', vr_video_path = None,
               vr_prompt = Some ''a hill'', vr_original_frame = frame_missing_file \<rparr>]"
  by (simp add: eval_defs)

subsection \<open>Frame ids\<close>

lemma digit_char_inj: "d < 10 \<Longrightarrow> d' < 10 \<Longrightarrow> digit_char d = digit_char d' \<Longrightarrow> d = d'"
proof -
  assume a: "d < 10" "d' < 10" "digit_char d = digit_char d'"
  then have "(of_char (char_of (48 + d)) :: nat) = of_char (char_of (48 + d'))"
    by (simp add: digit_char_def)
  with a(1,2) show ?thesis by simp
qed

lemma digit_char_not_minus: "d < 10 \<Longrightarrow> digit_char d \<noteq> CHR ''-''"
proof
  assume a: "d < 10" "digit_char d = CHR ''-''"
  then have "(of_char (char_of (48 + d)) :: nat) = of_char (CHR ''-'')"
    by (simp add: digit_char_def)
  with a(1) show False by simp
qed

lemma str_nat_nonempty: "str_nat n \<noteq> []"
  by (subst str_nat.simps) simp

lemma str_nat_no_minus: "CHR ''-'' \<notin> set (str_nat n)"
proof (induction n rule: str_nat.induct)
  case (1 n)
  show ?case
  proof (cases "n < 10")
    case True
    then show ?thesis
      using digit_char_not_minus [of n] by (subst str_nat.simps) auto
  next
    case False
    then show ?thesis
      using 1 digit_char_not_minus [of "n mod 10"] by (subst str_nat.simps) auto
  qed
qed

lemma str_nat_inj: "str_nat m = str_nat n \<Longrightarrow> m = n"
proof (induction m arbitrary: n rule: str_nat.induct)
  case (1 m)
  show ?case
  proof (cases "m < 10")
    case m: True
    show ?thesis
    proof (cases "n < 10")
      case True
      with m "1.prems" show ?thesis
        using digit_char_inj [of m n] by (simp add: str_nat.simps [of m] str_nat.simps [of n])
    next
      case False
      with m "1.prems" show ?thesis
        using str_nat_nonempty [of "n div 10"]
        by (simp add: str_nat.simps [of m] str_nat.simps [of n] Cons_eq_append_conv)
    qed
  next
    case m: False
    show ?thesis
    proof (cases "n < 10")
      case True
      with m "1.prems" show ?thesis
        using str_nat_nonempty [of "m div 10"]
        by (simp add: str_nat.simps [of m] str_nat.simps [of n] append_eq_Cons_conv)
    next
      case False
      with m "1.prems" have eq: "str_nat (m div 10) = str_nat (n div 10)"
        and d: "digit_char (m mod 10) = digit_char (n mod 10)"
        by (simp_all add: str_nat.simps [of m] str_nat.simps [of n])
      from "1.IH" [OF m eq] have "m div 10 = n div 10" .
      moreover from d have "m mod 10 = n mod 10"
        by (intro digit_char_inj) simp_all
      ultimately show ?thesis
        by (metis div_mult_mod_eq)
    qed
  qed
qed

lemma str_int_inj: "str_int i = str_int j \<Longrightarrow> i = j"
proof -
  assume a: "str_int i = str_int j"
  have hd: "hd (str_nat n) \<noteq> CHR ''-''" for n
    using str_nat_no_minus [of n] str_nat_nonempty [of n] by (cases "str_nat n") auto
  show ?thesis
  proof (cases "i < 0"; cases "j < 0")
    assume "i < 0" "j < 0"
    with a have "nat (- i) = nat (- j)" by (simp add: str_int_def str_nat_inj)
    with \<open>i < 0\<close> \<open>j < 0\<close> show ?thesis by simp
  next
    assume "i < 0" "\<not> j < 0"
    with a hd [of "nat j"] show ?thesis
      by (cases "str_nat (nat j)") (auto simp: str_int_def)
  next
    assume "\<not> i < 0" "j < 0"
    with a hd [of "nat i"] show ?thesis
      by (cases "str_nat (nat i)") (auto simp: str_int_def)
  next
    assume "\<not> i < 0" "\<not> j < 0"
    with a have "nat i = nat j" by (simp add: str_int_def str_nat_inj)
    with \<open>\<not> i < 0\<close> \<open>\<not> j < 0\<close> show ?thesis by simp
  qed
qed

lemma distinct_frame_ids:
  "distinct (map (frame_id_of pre) (enumerate 0 kfs)) = distinct (frame_numbers kfs)"
proof -
  have inj: "inj_on (\<lambda>n. pre @ str_int n) A" for A
    by (rule inj_onI) (simp add: str_int_inj)
  have "map (frame_id_of pre) (enumerate 0 kfs) = map (\<lambda>n. pre @ str_int n) (frame_numbers kfs)"
    by (simp add: frame_numbers_def frame_id_of_def)
  then show ?thesis
    by (simp add: distinct_map inj)
qed

lemma numbers_without_explicit:
  assumes "list_all (\<lambda>kf. kf_frame_number kf = None) kfs"
  shows "map (\<lambda>ik. frame_number_of (fst ik) (snd ik)) (enumerate n kfs)
     = map (\<lambda>i. int i + 1) [n..<n + length kfs]"
proof -
  have "map (\<lambda>ik. frame_number_of (fst ik) (snd ik)) (enumerate n kfs)
      = map (\<lambda>ik. int (fst ik) + 1) (enumerate n kfs)"
  proof (rule map_cong [OF refl])
    fix ik assume "ik \<in> set (enumerate n kfs)"
    then have "snd ik \<in> set (map snd (enumerate n kfs))"
      by (simp del: map_snd_enumerate)
    then have "snd ik \<in> set kfs"
      by simp
    with assms have "kf_frame_number (snd ik) = None"
      by (simp add: list_all_iff)
    then show "frame_number_of (fst ik) (snd ik) = int (fst ik) + 1"
      by (simp add: frame_number_of_def)
  qed
  also have "\<dots> = map (\<lambda>i. int i + 1) (map fst (enumerate n kfs))"
    by (simp only: map_map o_def)
  also have "\<dots> = map (\<lambda>i. int i + 1) [n..<n + length kfs]"
    by (simp only: map_fst_enumerate)
  finally show ?thesis .
qed

lemma distinct_without_explicit:
  "list_all (\<lambda>kf. kf_frame_number kf = None) kfs \<Longrightarrow> distinct (frame_numbers kfs)"
  by (simp add: frame_numbers_def numbers_without_explicit distinct_map inj_on_def)

text \<open>
  Claim C8, as the code has it. The frame id of the keyframe at index \<open>i\<close> is the prefix
  followed by the decimal form of its number, the explicit \<open>frame_number\<close> when that is
  present and not 0, and \<open>i + 1\<close> otherwise. Nothing checks these numbers against each
  other, so the ids of a batch are pairwise different exactly when the numbers are; they
  are when no keyframe carries an explicit number.
\<close>

theorem frame_ids_unique_iff_numbers_unique:
  assumes "snd (process_keyframes prov files kfs dir mn pre) = Inr results"
  shows "map ir_frame_id results = map (frame_id_of pre) (enumerate 0 kfs)
    \<and> distinct (map ir_frame_id results) = distinct (frame_numbers kfs)
    \<and> (list_all (\<lambda>kf. kf_frame_number kf = None) kfs \<longrightarrow> distinct (map ir_frame_id results))"
proof -
  have ids: "map ir_frame_id results = map (frame_id_of pre) (enumerate 0 kfs)"
    using process_keyframes_Inr [OF assms] by (simp add: keyframes_loop_ids)
  then show ?thesis
    by (simp add: distinct_frame_ids distinct_without_explicit)
qed

theorem frame_ids_unique_iff_numbers_unique_witness:
  "snd (process_keyframes good_provider Map.empty two_keyframes ''img'' ''kling-v1-5'' ''frame_'')
     = Inr (snd (keyframes_loop good_provider ''img'' ''kling-v1-5'' ''frame_'' 0 two_keyframes
              Map.empty []))
   \<and> list_all (\<lambda>kf. kf_frame_number kf = None) two_keyframes
   \<and> distinct (map ir_frame_id (snd (keyframes_loop good_provider ''img'' ''kling-v1-5''
        ''frame_'' 0 two_keyframes Map.empty [])))"
proof -
  have h: "snd (process_keyframes good_provider Map.empty two_keyframes
                  ''img'' ''kling-v1-5'' ''frame_'')
     = Inr (snd (keyframes_loop good_provider ''img'' ''kling-v1-5'' ''frame_'' 0 two_keyframes
              Map.empty []))"
    by (rule process_keyframes_results) (simp add: good_provider_def)
  have n: "list_all (\<lambda>kf. kf_frame_number kf = None) two_keyframes"
    by (simp add: two_keyframes_def plain_keyframe_def)
  from frame_ids_unique_iff_numbers_unique [OF h] h n show ?thesis by blast
qed

text \<open>
  Claim C8 as stated fails: the first keyframe has the explicit frame number 2, the
  second has none and gets its index plus one, which is 2 as well; both items get the
  id \<open>frame_2\<close> (and the second image is written over the first).
\<close>

theorem frame_ids_clash_counterexample:
  "map ir_frame_id
     (snd (keyframes_loop good_provider ''img'' ''kling-v1-5'' ''frame_'' 0 clashing_keyframes
             Map.empty []))
     = [''frame_2'', ''frame_2'']
   \<and> snd (process_keyframes good_provider Map.empty clashing_keyframes
            ''img'' ''kling-v1-5'' ''frame_'')
       = Inr (snd (keyframes_loop good_provider ''img'' ''kling-v1-5'' ''frame_'' 0
                clashing_keyframes Map.empty []))
   \<and> \<not> distinct (map ir_frame_id
         (snd (keyframes_loop good_provider ''img'' ''kling-v1-5'' ''frame_'' 0
                 clashing_keyframes Map.empty [])))"
proof -
  have ids: "map ir_frame_id
     (snd (keyframes_loop good_provider ''img'' ''kling-v1-5'' ''frame_'' 0 clashing_keyframes
             Map.empty []))
     = [''frame_2'', ''frame_2'']"
    unfolding keyframes_loop_ids
    by (simp add: clashing_keyframes_def plain_keyframe_def frame_id_of_def
          frame_number_of_def str_int_1_2)
  have run: "snd (process_keyframes good_provider Map.empty clashing_keyframes
            ''img'' ''kling-v1-5'' ''frame_'')
       = Inr (snd (keyframes_loop good_provider ''img'' ''kling-v1-5'' ''frame_'' 0
                clashing_keyframes Map.empty []))"
    by (rule process_keyframes_results) (simp add: good_provider_def)
  show ?thesis
    using run by (simp add: ids)
qed

subsection \<open>Downloading the artifact\<close>

lemma str_int_nonempty: "str_int i \<noteq> []"
  by (simp add: str_int_def str_nat_nonempty)

lemma generate_image_completed:
  assumes "submit_image prov \<lparr> iq_model_name = mn, iq_prompt = p, iq_negative_prompt = np,
                              iq_n = 1, iq_aspect_ratio = ar, iq_seed = seed \<rparr> = Inr t"
    and "wait_image prov t = Inr (Some (url # urls))" and "fid \<noteq> []"
  shows "generate prov dir files p mn np ar seed (Some fid) =
     (case http_get prov url of
        Inl e \<Rightarrow> (files, None)
      | Inr body \<Rightarrow>
          (case disk prov (path_join dir (fid @ ''.png'')) of
             WriteOk \<Rightarrow> (files(path_join dir (fid @ ''.png'') \<mapsto> body),
                          Some (path_join dir (fid @ ''.png'')))
           | OpenFails e \<Rightarrow> (files, None)
           | WriteFails n e \<Rightarrow> (files(path_join dir (fid @ ''.png'') \<mapsto> take n body), None)))"
  using assms
  by (simp add: generate_def download_def Let_def split: sum.splits disk_outcome.splits)

text \<open>
  Claim C7, as the code has it. The download request goes to the URL of the task result
  (\<open>videos[0]["url"]\<close> of the completed task, \<open>images[0].url\<close> for an image) and the
  file is named after the frame id. When the request returns a body and the file is
  opened and written without an exception, the file holds exactly that body, nothing
  else in the directory changes, the function returns the path and the item is recorded
  as \<open>success\<close>; the body is written as it came, neither its length nor the status of
  the response being looked at. When the request raises, or the file cannot be opened,
  nothing is written, the function returns \<open>None\<close> and the item is recorded as \<open>failed\<close>.
  When the write raises part way, the part written stays in the file, and again the
  function returns \<open>None\<close> and the item is recorded as \<open>failed\<close>.
\<close>

theorem reported_path_holds_the_body:
  assumes "fr_image_path frame = Some ip" and "ip \<noteq> []"
    and "files ip = Some img"
    and "submit_video prov
           \<lparr> vq_model_name = mn, vq_image = img,
             vq_prompt = (if ud then enhance_prompt_with_dify prov (get_default (fr_prompt frame) [])
                          else get_default (fr_prompt frame) []),
             vq_mode = mode, vq_duration = dur \<rparr> = Inr t"
    and "fst (poll_loop 300 (get_task_status prov t) 0 0) = Completed c"
    and "video_url_of c = Inr (Some (JStr url))"
    and "submit_image prov
           \<lparr> iq_model_name = mn2, iq_prompt = kf_prompt kf,
             iq_negative_prompt = kf_negative_prompt kf, iq_n = 1,
             iq_aspect_ratio = kf_aspect_ratio kf, iq_seed = kf_seed kf \<rparr> = Inr t2"
    and "wait_image prov t2 = Inr (Some (url2 # urls))"
  shows "generate_from_image prov dir files ip
           (if ud then enhance_prompt_with_dify prov (get_default (fr_prompt frame) [])
            else get_default (fr_prompt frame) [])
           (fr_frame_id frame) mode dur mn =
       (case http_get prov url of
          Inl e \<Rightarrow> (files, None)
        | Inr body \<Rightarrow>
            (case disk prov (path_join dir (str_opt (fr_frame_id frame) @ ''.mp4'')) of
               WriteOk \<Rightarrow>
                 (files(path_join dir (str_opt (fr_frame_id frame) @ ''.mp4'') \<mapsto> body),
                  Some (path_join dir (str_opt (fr_frame_id frame) @ ''.mp4'')))
             | OpenFails e \<Rightarrow> (files, None)
             | WriteFails n e \<Rightarrow>
                 (files(path_join dir (str_opt (fr_frame_id frame) @ ''.mp4'') \<mapsto> take n body),
                  None)))
    \<and> map vr_status (snd (frames_loop prov dir mn mode dur ud [frame] files [])) =
       [case http_get prov url of
          Inl e \<Rightarrow> ''failed''
        | Inr body \<Rightarrow>
            (case disk prov (path_join dir (str_opt (fr_frame_id frame) @ ''.mp4'')) of
               WriteOk \<Rightarrow> ''success'' | OpenFails e \<Rightarrow> ''failed'' | WriteFails n e \<Rightarrow> ''failed'')]
    \<and> map vr_video_path (snd (frames_loop prov dir mn mode dur ud [frame] files [])) =
       [case http_get prov url of
          Inl e \<Rightarrow> None
        | Inr body \<Rightarrow>
            (case disk prov (path_join dir (str_opt (fr_frame_id frame) @ ''.mp4'')) of
               WriteOk \<Rightarrow> Some (path_join dir (str_opt (fr_frame_id frame) @ ''.mp4''))
             | OpenFails e \<Rightarrow> None | WriteFails n e \<Rightarrow> None)]
    \<and> generate prov dir2 files2 (kf_prompt kf) mn2 (kf_negative_prompt kf) (kf_aspect_ratio kf)
         (kf_seed kf) (Some (frame_id_of pre (idx, kf))) =
       (case http_get prov url2 of
          Inl e \<Rightarrow> (files2, None)
        | Inr body \<Rightarrow>
            (case disk prov (path_join dir2 (frame_id_of pre (idx, kf) @ ''.png'')) of
               WriteOk \<Rightarrow>
                 (files2(path_join dir2 (frame_id_of pre (idx, kf) @ ''.png'') \<mapsto> body),
                  Some (path_join dir2 (frame_id_of pre (idx, kf) @ ''.png'')))
             | OpenFails e \<Rightarrow> (files2, None)
             | WriteFails n e \<Rightarrow>
                 (files2(path_join dir2 (frame_id_of pre (idx, kf) @ ''.png'') \<mapsto> take n body),
                  None)))
    \<and> map ir_status (snd (keyframes_loop prov dir2 mn2 pre idx [kf] files2 [])) =
       [case http_get prov url2 of
          Inl e \<Rightarrow> ''failed''
        | Inr body \<Rightarrow>
            (case disk prov (path_join dir2 (frame_id_of pre (idx, kf) @ ''.png'')) of
               WriteOk \<Rightarrow> ''success'' | OpenFails e \<Rightarrow> ''failed'' | WriteFails n e \<Rightarrow> ''failed'')]
    \<and> map ir_image_path (snd (keyframes_loop prov dir2 mn2 pre idx [kf] files2 [])) =
       [case http_get prov url2 of
          Inl e \<Rightarrow> None
        | Inr body \<Rightarrow>
            (case disk prov (path_join dir2 (frame_id_of pre (idx, kf) @ ''.png'')) of
               WriteOk \<Rightarrow> Some (path_join dir2 (frame_id_of pre (idx, kf) @ ''.png''))
             | OpenFails e \<Rightarrow> None | WriteFails n e \<Rightarrow> None)]"
proof -
  let ?p = "if ud then enhance_prompt_with_dify prov (get_default (fr_prompt frame) [])
            else get_default (fr_prompt frame) []"
  let ?vp = "path_join dir (str_opt (fr_frame_id frame) @ ''.mp4'')"
  let ?fid = "frame_id_of pre (idx, kf)"
  let ?ip = "path_join dir2 (?fid @ ''.png'')"
  have v1: "generate_from_image prov dir files ip ?p (fr_frame_id frame) mode dur mn =
       (case http_get prov url of
          Inl e \<Rightarrow> (files, None)
        | Inr body \<Rightarrow>
            (case disk prov ?vp of
               WriteOk \<Rightarrow> (files(?vp \<mapsto> body), Some ?vp)
             | OpenFails e \<Rightarrow> (files, None)
             | WriteFails n e \<Rightarrow> (files(?vp \<mapsto> take n body), None)))"
    unfolding generate_from_image_def
    by (rule generate_completed [where img = img and t = t and c = c])
       (rule assms(3), rule assms(4), rule assms(5), rule assms(6))
  obtain files' video_path where
    g: "generate_from_image prov dir files ip ?p (fr_frame_id frame) mode dur mn
          = (files', video_path)"
    by (cases "generate_from_image prov dir files ip ?p (fr_frame_id frame) mode dur mn")
  have vp: "video_path =
       (case http_get prov url of
          Inl e \<Rightarrow> None
        | Inr body \<Rightarrow>
            (case disk prov ?vp of
               WriteOk \<Rightarrow> Some ?vp | OpenFails e \<Rightarrow> None | WriteFails n e \<Rightarrow> None))"
    using g unfolding v1 by (auto split: sum.splits disk_outcome.splits)
  have loop: "frames_loop prov dir mn mode dur ud [frame] files [] =
      (files', [\<lparr> vr_frame_id = fr_frame_id frame,
                   vr_status = (if video_path \<noteq> None then ''success'' else ''failed''),
                   vr_reason = None, vr_image_path = Some ip, vr_video_path = video_path,
                   vr_prompt = Some ?p, vr_original_frame = frame \<rparr>])"
    using frames_loop_step [OF assms(1,2) g, of "[]" "[]"] by simp
  have v2: "map vr_status (snd (frames_loop prov dir mn mode dur ud [frame] files [])) =
       [case http_get prov url of
          Inl e \<Rightarrow> ''failed''
        | Inr body \<Rightarrow>
            (case disk prov ?vp of
               WriteOk \<Rightarrow> ''success'' | OpenFails e \<Rightarrow> ''failed'' | WriteFails n e \<Rightarrow> ''failed'')]"
    unfolding loop by (simp add: vp split: sum.splits disk_outcome.splits)
  have v3: "map vr_video_path (snd (frames_loop prov dir mn mode dur ud [frame] files [])) =
       [case http_get prov url of
          Inl e \<Rightarrow> None
        | Inr body \<Rightarrow>
            (case disk prov ?vp of
               WriteOk \<Rightarrow> Some ?vp | OpenFails e \<Rightarrow> None | WriteFails n e \<Rightarrow> None)]"
    unfolding loop by (simp add: vp)
  have fid: "?fid \<noteq> []"
    by (simp add: frame_id_of_def str_int_nonempty)
  have i1: "generate prov dir2 files2 (kf_prompt kf) mn2 (kf_negative_prompt kf)
         (kf_aspect_ratio kf) (kf_seed kf) (Some ?fid) =
       (case http_get prov url2 of
          Inl e \<Rightarrow> (files2, None)
        | Inr body \<Rightarrow>
            (case disk prov ?ip of
               WriteOk \<Rightarrow> (files2(?ip \<mapsto> body), Some ?ip)
             | OpenFails e \<Rightarrow> (files2, None)
             | WriteFails n e \<Rightarrow> (files2(?ip \<mapsto> take n body), None)))"
    by (rule generate_image_completed [where t = t2 and urls = urls])
       (rule assms(7), rule assms(8), rule fid)
  obtain files2' image_path where
    g2: "generate prov dir2 files2 (kf_prompt kf) mn2 (kf_negative_prompt kf)
         (kf_aspect_ratio kf) (kf_seed kf) (Some ?fid) = (files2', image_path)"
    by (cases "generate prov dir2 files2 (kf_prompt kf) mn2 (kf_negative_prompt kf)
         (kf_aspect_ratio kf) (kf_seed kf) (Some ?fid)")
  have ip: "image_path =
       (case http_get prov url2 of
          Inl e \<Rightarrow> None
        | Inr body \<Rightarrow>
            (case disk prov ?ip of
               WriteOk \<Rightarrow> Some ?ip | OpenFails e \<Rightarrow> None | WriteFails n e \<Rightarrow> None))"
    using g2 unfolding i1 by (auto split: sum.splits disk_outcome.splits)
  have loop2: "keyframes_loop prov dir2 mn2 pre idx [kf] files2 [] =
      (files2', [\<lparr> ir_frame_id = ?fid, ir_frame_number = frame_number_of idx kf,
                    ir_prompt = kf_prompt kf, ir_image_path = image_path,
                    ir_status = (if image_path \<noteq> None then ''success'' else ''failed''),
                    ir_original_keyframe = kf \<rparr>])"
    using g2 by (simp add: Let_def frame_id_of_def)
  have i2: "map ir_status (snd (keyframes_loop prov dir2 mn2 pre idx [kf] files2 [])) =
       [case http_get prov url2 of
          Inl e \<Rightarrow> ''failed''
        | Inr body \<Rightarrow>
            (case disk prov ?ip of
               WriteOk \<Rightarrow> ''success'' | OpenFails e \<Rightarrow> ''failed'' | WriteFails n e \<Rightarrow> ''failed'')]"
    unfolding loop2 by (simp add: ip split: sum.splits disk_outcome.splits)
  have i3: "map ir_image_path (snd (keyframes_loop prov dir2 mn2 pre idx [kf] files2 [])) =
       [case http_get prov url2 of
          Inl e \<Rightarrow> None
        | Inr body \<Rightarrow>
            (case disk prov ?ip of
               WriteOk \<Rightarrow> Some ?ip | OpenFails e \<Rightarrow> None | WriteFails n e \<Rightarrow> None)]"
    unfolding loop2 by (simp add: ip)
  show ?thesis
    by (intro conjI) (rule v1, rule v2, rule v3, rule i1, rule i2, rule i3)
qed

theorem reported_path_holds_the_body_witness:
  "generate_from_image good_provider ''out'' one_image ''img/frame_1.png'' ''a red fox''
       (Some ''frame_1'') ''std'' ''5'' ''kling-v1''
     = (one_image(''out/frame_1.mp4'' \<mapsto> ''DATA''), Some ''out/frame_1.mp4'')
   \<and> map vr_status (snd (frames_loop good_provider ''out'' ''kling-v1'' ''std'' ''5'' False
       [frame_with_image] one_image [])) = [''success'']
   \<and> generate good_provider ''img'' Map.empty ''a red fox'' ''kling-v1-5'' None (Some ''16:9'') None
       (Some ''frame_1'')
     = ([''img/frame_1.png'' \<mapsto> ''DATA''], Some ''img/frame_1.png'')
   \<and> map ir_status (snd (keyframes_loop good_provider ''img'' ''kling-v1-5'' ''frame_'' 0
       [plain_keyframe ''a red fox'' None] Map.empty [])) = [''success'']
   \<and> generate_from_image broken_link_provider ''out'' one_image ''img/frame_1.png'' ''a red fox''
       (Some ''frame_1'') ''std'' ''5'' ''kling-v1''
     = (one_image, None)
   \<and> map vr_status (snd (frames_loop broken_link_provider ''out'' ''kling-v1'' ''std'' ''5'' False
       [frame_with_image] one_image [])) = [''failed'']
   \<and> generate broken_link_provider ''img'' Map.empty ''a red fox'' ''kling-v1-5'' None (Some ''16:9'') None
       (Some ''frame_1'')
     = (Map.empty, None)
   \<and> map ir_status (snd (keyframes_loop broken_link_provider ''img'' ''kling-v1-5'' ''frame_'' 0
       [plain_keyframe ''a red fox'' None] Map.empty [])) = [''failed'']
   \<and> generate_from_image full_disk_provider ''out'' one_image ''img/frame_1.png'' ''a red fox''
       (Some ''frame_1'') ''std'' ''5'' ''kling-v1''
     = (one_image(''out/frame_1.mp4'' \<mapsto> ''DA''), None)
   \<and> map vr_status (snd (frames_loop full_disk_provider ''out'' ''kling-v1'' ''std'' ''5'' False
       [frame_with_image] one_image [])) = [''failed'']
   \<and> generate full_disk_provider ''img'' Map.empty ''a red fox'' ''kling-v1-5'' None (Some ''16:9'') None
       (Some ''frame_1'')
     = ([''img/frame_1.png'' \<mapsto> ''DA''], None)
   \<and> map ir_status (snd (keyframes_loop full_disk_provider ''img'' ''kling-v1-5'' ''frame_'' 0
       [plain_keyframe ''a red fox'' None] Map.empty [])) = [''failed'']"
proof -
  have a: "fr_image_path frame_with_image = Some ''img/frame_1.png''"
    and b: "''img/frame_1.png'' \<noteq> []"
    and c: "one_image ''img/frame_1.png'' = Some ''PNG''"
    by (simp_all add: frame_with_image_def one_image_def)
  note f = succeed_data_url
  have ev: "get_default (fr_prompt frame_with_image) [] = ''a red fox''"
    "fr_frame_id frame_with_image = Some ''frame_1''"
    "path_join ''out'' (str_opt (Some ''frame_1'') @ ''.mp4'') = ''out/frame_1.mp4''"
    "frame_id_of ''frame_'' (0, plain_keyframe ''a red fox'' None) = ''frame_1''"
    "path_join ''img'' ''frame_1.png'' = ''img/frame_1.png''"
    "kf_prompt (plain_keyframe ''a red fox'' None) = ''a red fox''"
    "kf_negative_prompt (plain_keyframe ''a red fox'' None) = None"
    "kf_aspect_ratio (plain_keyframe ''a red fox'' None) = Some ''16:9''"
    "kf_seed (plain_keyframe ''a red fox'' None) = None"
    by (simp_all add: frame_with_image_def get_default_def path_join_def startswith_def
          str_opt_def frame_id_of_def frame_number_of_def plain_keyframe_def str_int_1_2)
  have d_ok: "submit_video good_provider
           \<lparr> vq_model_name = ''kling-v1'', vq_image = ''PNG'',
             vq_prompt = (if False then enhance_prompt_with_dify good_provider
                                         (get_default (fr_prompt frame_with_image) [])
                          else get_default (fr_prompt frame_with_image) []),
             vq_mode = ''std'', vq_duration = ''5'' \<rparr> = Inr ''vid-task''"
    and e_ok: "fst (poll_loop 300 (get_task_status good_provider ''vid-task'') 0 0) = Completed succeed_data"
    and g_ok: "submit_image good_provider
           \<lparr> iq_model_name = ''kling-v1-5'',
             iq_prompt = kf_prompt (plain_keyframe ''a red fox'' None),
             iq_negative_prompt = kf_negative_prompt (plain_keyframe ''a red fox'' None),
             iq_n = 1,
             iq_aspect_ratio = kf_aspect_ratio (plain_keyframe ''a red fox'' None),
             iq_seed = kf_seed (plain_keyframe ''a red fox'' None) \<rparr> = Inr ''img-task''"
    and h_ok: "wait_image good_provider ''img-task'' = Inr (Some (''http://cdn/i.png'' # []))"
    by (simp_all add: good_provider_def poll_loop.simps succeed_response_classified)
  note t_ok = reported_path_holds_the_body
      [where frame = frame_with_image and ip = "''img/frame_1.png''" and files = one_image
         and img = "''PNG''" and prov = good_provider and mn = "''kling-v1''" and ud = False
         and mode = "''std''" and dur = "''5''" and t = "''vid-task''" and c = succeed_data
         and url = "''http://cdn/v.mp4''" and ?mn2.0 = "''kling-v1-5''"
         and kf = "plain_keyframe ''a red fox'' None" and ?t2.0 = "''img-task''"
         and ?url2.0 = "''http://cdn/i.png''" and urls = "[]" and dir = "''out''"
         and ?dir2.0 = "''img''" and ?files2.0 = Map.empty and pre = "''frame_''" and idx = 0,
       OF a b c d_ok e_ok f g_ok h_ok]
  have w1_ok: "generate_from_image good_provider ''out'' one_image ''img/frame_1.png'' ''a red fox''
       (Some ''frame_1'') ''std'' ''5'' ''kling-v1''
     = (one_image(''out/frame_1.mp4'' \<mapsto> ''DATA''), Some ''out/frame_1.mp4'')"
    using t_ok [THEN conjunct1] by (simp add: ev good_provider_def)
  have w2_ok: "map vr_status (snd (frames_loop good_provider ''out'' ''kling-v1'' ''std'' ''5'' False
       [frame_with_image] one_image [])) = [''success'']"
    unfolding t_ok [THEN conjunct2, THEN conjunct1] by (simp add: ev good_provider_def)
  have w3_ok: "generate good_provider ''img'' Map.empty ''a red fox'' ''kling-v1-5'' None (Some ''16:9'') None
       (Some ''frame_1'')
     = ([''img/frame_1.png'' \<mapsto> ''DATA''], Some ''img/frame_1.png'')"
    using t_ok [THEN conjunct2, THEN conjunct2, THEN conjunct2, THEN conjunct1]
    by (simp add: ev good_provider_def)
  have w4_ok: "map ir_status (snd (keyframes_loop good_provider ''img'' ''kling-v1-5'' ''frame_'' 0
       [plain_keyframe ''a red fox'' None] Map.empty [])) = [''success'']"
    unfolding t_ok [THEN conjunct2, THEN conjunct2, THEN conjunct2, THEN conjunct2, THEN conjunct1]
    by (simp add: ev good_provider_def)
  have d_bl: "submit_video broken_link_provider
           \<lparr> vq_model_name = ''kling-v1'', vq_image = ''PNG'',
             vq_prompt = (if False then enhance_prompt_with_dify broken_link_provider
                                         (get_default (fr_prompt frame_with_image) [])
                          else get_default (fr_prompt frame_with_image) []),
             vq_mode = ''std'', vq_duration = ''5'' \<rparr> = Inr ''vid-task''"
    and e_bl: "fst (poll_loop 300 (get_task_status broken_link_provider ''vid-task'') 0 0) = Completed succeed_data"
    and g_bl: "submit_image broken_link_provider
           \<lparr> iq_model_name = ''kling-v1-5'',
             iq_prompt = kf_prompt (plain_keyframe ''a red fox'' None),
             iq_negative_prompt = kf_negative_prompt (plain_keyframe ''a red fox'' None),
             iq_n = 1,
             iq_aspect_ratio = kf_aspect_ratio (plain_keyframe ''a red fox'' None),
             iq_seed = kf_seed (plain_keyframe ''a red fox'' None) \<rparr> = Inr ''img-task''"
    and h_bl: "wait_image broken_link_provider ''img-task'' = Inr (Some (''http://cdn/i.png'' # []))"
    by (simp_all add: broken_link_provider_def good_provider_def poll_loop.simps succeed_response_classified)
  note t_bl = reported_path_holds_the_body
      [where frame = frame_with_image and ip = "''img/frame_1.png''" and files = one_image
         and img = "''PNG''" and prov = broken_link_provider and mn = "''kling-v1''" and ud = False
         and mode = "''std''" and dur = "''5''" and t = "''vid-task''" and c = succeed_data
         and url = "''http://cdn/v.mp4''" and ?mn2.0 = "''kling-v1-5''"
         and kf = "plain_keyframe ''a red fox'' None" and ?t2.0 = "''img-task''"
         and ?url2.0 = "''http://cdn/i.png''" and urls = "[]" and dir = "''out''"
         and ?dir2.0 = "''img''" and ?files2.0 = Map.empty and pre = "''frame_''" and idx = 0,
       OF a b c d_bl e_bl f g_bl h_bl]
  have w1_bl: "generate_from_image broken_link_provider ''out'' one_image ''img/frame_1.png'' ''a red fox''
       (Some ''frame_1'') ''std'' ''5'' ''kling-v1''
     = (one_image, None)"
    using t_bl [THEN conjunct1] by (simp add: ev broken_link_provider_def good_provider_def)
  have w2_bl: "map vr_status (snd (frames_loop broken_link_provider ''out'' ''kling-v1'' ''std'' ''5'' False
       [frame_with_image] one_image [])) = [''failed'']"
    unfolding t_bl [THEN conjunct2, THEN conjunct1] by (simp add: ev broken_link_provider_def good_provider_def)
  have w3_bl: "generate broken_link_provider ''img'' Map.empty ''a red fox'' ''kling-v1-5'' None (Some ''16:9'') None
       (Some ''frame_1'')
     = (Map.empty, None)"
    using t_bl [THEN conjunct2, THEN conjunct2, THEN conjunct2, THEN conjunct1]
    by (simp add: ev broken_link_provider_def good_provider_def)
  have w4_bl: "map ir_status (snd (keyframes_loop broken_link_provider ''img'' ''kling-v1-5'' ''frame_'' 0
       [plain_keyframe ''a red fox'' None] Map.empty [])) = [''failed'']"
    unfolding t_bl [THEN conjunct2, THEN conjunct2, THEN conjunct2, THEN conjunct2, THEN conjunct1]
    by (simp add: ev broken_link_provider_def good_provider_def)
  have d_fd: "submit_video full_disk_provider
           \<lparr> vq_model_name = ''kling-v1'', vq_image = ''PNG'',
             vq_prompt = (if False then enhance_prompt_with_dify full_disk_provider
                                         (get_default (fr_prompt frame_with_image) [])
                          else get_default (fr_prompt frame_with_image) []),
             vq_mode = ''std'', vq_duration = ''5'' \<rparr> = Inr ''vid-task''"
    and e_fd: "fst (poll_loop 300 (get_task_status full_disk_provider ''vid-task'') 0 0) = Completed succeed_data"
    and g_fd: "submit_image full_disk_provider
           \<lparr> iq_model_name = ''kling-v1-5'',
             iq_prompt = kf_prompt (plain_keyframe ''a red fox'' None),
             iq_negative_prompt = kf_negative_prompt (plain_keyframe ''a red fox'' None),
             iq_n = 1,
             iq_aspect_ratio = kf_aspect_ratio (plain_keyframe ''a red fox'' None),
             iq_seed = kf_seed (plain_keyframe ''a red fox'' None) \<rparr> = Inr ''img-task''"
    and h_fd: "wait_image full_disk_provider ''img-task'' = Inr (Some (''http://cdn/i.png'' # []))"
    by (simp_all add: full_disk_provider_def good_provider_def poll_loop.simps succeed_response_classified)
  note t_fd = reported_path_holds_the_body
      [where frame = frame_with_image and ip = "''img/frame_1.png''" and files = one_image
         and img = "''PNG''" and prov = full_disk_provider and mn = "''kling-v1''" and ud = False
         and mode = "''std''" and dur = "''5''" and t = "''vid-task''" and c = succeed_data
         and url = "''http://cdn/v.mp4''" and ?mn2.0 = "''kling-v1-5''"
         and kf = "plain_keyframe ''a red fox'' None" and ?t2.0 = "''img-task''"
         and ?url2.0 = "''http://cdn/i.png''" and urls = "[]" and dir = "''out''"
         and ?dir2.0 = "''img''" and ?files2.0 = Map.empty and pre = "''frame_''" and idx = 0,
       OF a b c d_fd e_fd f g_fd h_fd]
  have w1_fd: "generate_from_image full_disk_provider ''out'' one_image ''img/frame_1.png'' ''a red fox''
       (Some ''frame_1'') ''std'' ''5'' ''kling-v1''
     = (one_image(''out/frame_1.mp4'' \<mapsto> ''DA''), None)"
    using t_fd [THEN conjunct1] by (simp add: ev full_disk_provider_def good_provider_def)
  have w2_fd: "map vr_status (snd (frames_loop full_disk_provider ''out'' ''kling-v1'' ''std'' ''5'' False
       [frame_with_image] one_image [])) = [''failed'']"
    unfolding t_fd [THEN conjunct2, THEN conjunct1] by (simp add: ev full_disk_provider_def good_provider_def)
  have w3_fd: "generate full_disk_provider ''img'' Map.empty ''a red fox'' ''kling-v1-5'' None (Some ''16:9'') None
       (Some ''frame_1'')
     = ([''img/frame_1.png'' \<mapsto> ''DA''], None)"
    using t_fd [THEN conjunct2, THEN conjunct2, THEN conjunct2, THEN conjunct1]
    by (simp add: ev full_disk_provider_def good_provider_def)
  have w4_fd: "map ir_status (snd (keyframes_loop full_disk_provider ''img'' ''kling-v1-5'' ''frame_'' 0
       [plain_keyframe ''a red fox'' None] Map.empty [])) = [''failed'']"
    unfolding t_fd [THEN conjunct2, THEN conjunct2, THEN conjunct2, THEN conjunct2, THEN conjunct1]
    by (simp add: ev full_disk_provider_def good_provider_def)
  show ?thesis
    by (intro conjI) (rule w1_ok, rule w2_ok, rule w3_ok, rule w4_ok, rule w1_bl, rule w2_bl, rule w3_bl, rule w4_bl, rule w1_fd, rule w2_fd, rule w3_fd, rule w4_fd)
qed

text \<open>
  Claim C7 as stated fails: the download returns an empty body, the stage writes an
  empty file, reports its path, and records the item as a success.
\<close>

theorem empty_download_is_a_success_counterexample:
  "generate_from_image empty_body_provider ''out'' one_image ''img/frame_1.png'' ''a red fox''
       (Some ''frame_1'') ''std'' ''5'' ''kling-v1''
     = (one_image(''out/frame_1.mp4'' \<mapsto> []), Some ''out/frame_1.mp4'')
   \<and> snd (process_frame_images empty_body_provider one_image [frame_with_image]
            ''out'' ''kling-v1'' ''std'' ''5'' False)
       = Inr [\<lparr> vr_frame_id = Some ''frame_1'', vr_status = ''success'', vr_reason = None,
                 vr_image_path = Some ''img/frame_1.png'',
                 vr_video_path = Some ''out/frame_1.mp4'',
                 vr_prompt = Some ''a red fox'', vr_original_frame = frame_with_image \<rparr>]"
  by (simp add: eval_defs empty_body_provider_def)

end
